theory Spec2Isabelle
  imports Main "HOL-Library.AList" "HOL-Library.Sublist"
begin

section \<open>Values, paths and the world the progress tracker runs in\<close>

text \<open>
  The values that \<^verbatim>\<open>json.loads\<close> returns and \<^verbatim>\<open>json.dumps\<close> accepts. A Python dict
  keeps its keys in insertion order, so an object is an association list: \<open>map_of\<close> reads
  a key, \<open>AList.update\<close> is the item assignment \<^verbatim>\<open>d[k] = v\<close> (an existing key keeps its place, a
  new key goes to the end). The keys of a dict are distinct; no property below depends on
  it. Numbers with a fraction are not modelled.
\<close>

datatype json =
    JNull
  | JBool bool
  | JInt int
  | JStr string
  | JList "json list"
  | JObj "(string \<times> json) list"

type_synonym pydict = "(string \<times> json) list"

datatype error =
    ProgressValidationError string
  | JSONDecodeError
  | KeyError string
  | TypeError
  | AttributeError
  | FileNotFoundError
  | IsADirectoryError
  | NotADirectoryError

text \<open>
  A path is the list of its components below the anchor (\<^verbatim>\<open>/\<close>, or \<^verbatim>\<open>.\<close> for a relative
  path); the anchor is its own parent and has the empty name, as in \<^verbatim>\<open>pathlib\<close>.
\<close>

type_synonym path = "string list"

definition parent :: "path \<Rightarrow> path" where
  "parent p = butlast p"

definition name :: "path \<Rightarrow> string" where
  "name p = (if p = [] then [] else last p)"

definition joinpath :: "path \<Rightarrow> string \<Rightarrow> path" where
  "joinpath p s = p @ [s]"

text \<open>
  A node of the file system. The text of a regular file is represented by the value
  \<^verbatim>\<open>json.loads\<close> makes of it (\<^verbatim>\<open>json.loads (json.dumps v) = v\<close> on the values above), or by
  \<open>BadFile\<close> when \<^verbatim>\<open>json.loads\<close> rejects it.
\<close>

datatype node = Directory | JsonFile json | BadFile

text \<open>
  \<^verbatim>\<open>datetime.utcnow()\<close> is a value with the two renderings the code takes of it:
  \<^verbatim>\<open>isoformat()\<close> and \<^verbatim>\<open>strftime("%Y-%m-%d")\<close>.
\<close>

record datetime =
  isoformat :: string
  strftime_ymd :: string

text \<open>
  The dataclass \<^verbatim>\<open>ProgressEvent\<close>; its fields \<^verbatim>\<open>type\<close> and \<^verbatim>\<open>data\<close> are \<open>ev_type\<close> and
  \<open>ev_data\<close> here.
\<close>

record ProgressEvent =
  ev_type :: string
  timestamp :: string
  ev_data :: pydict

text \<open>
  The state a call can read or change: the file system, the module's global
  \<^verbatim>\<open>_session_events\<close>, and the clock (the \<open>n\<close>-th call of \<^verbatim>\<open>utcnow\<close> returns \<open>clock n\<close>).
\<close>

record world =
  fs :: "path \<rightharpoonup> node"
  session_events :: "string \<rightharpoonup> ProgressEvent list"
  clock :: "nat \<Rightarrow> datetime"
  ticks :: nat

text \<open>A call returns its value or the exception it raised, and the world it leaves.\<close>

type_synonym 'a io = "world \<Rightarrow> (error + 'a) \<times> world"

definition return_io :: "'a \<Rightarrow> 'a io" where
  "return_io x w = (Inr x, w)"

definition bind_io :: "'a io \<Rightarrow> ('a \<Rightarrow> 'b io) \<Rightarrow> 'b io" where
  "bind_io m f w = (case m w of (Inl e, w') \<Rightarrow> (Inl e, w') | (Inr x, w') \<Rightarrow> f x w')"

definition lift_io :: "error + 'a \<Rightarrow> 'a io" where
  "lift_io r w = (r, w)"

definition utcnow :: "datetime io" where
  "utcnow w = (Inr (clock w (ticks w)), w\<lparr>ticks := Suc (ticks w)\<rparr>)"

definition node_at :: "(path \<rightharpoonup> node) \<Rightarrow> path \<Rightarrow> node option" where
  "node_at f p = (if p = [] then Some Directory else f p)"

definition path_exists :: "path \<Rightarrow> bool io" where
  "path_exists p w = (Inr (node_at (fs w) p \<noteq> None), w)"

text \<open>\<^verbatim>\<open>json.loads(path.read_text())\<close>\<close>

definition read_json :: "path \<Rightarrow> json io" where
  "read_json p w =
     (case node_at (fs w) p of
        None \<Rightarrow> (Inl FileNotFoundError, w)
      | Some Directory \<Rightarrow> (Inl IsADirectoryError, w)
      | Some BadFile \<Rightarrow> (Inl JSONDecodeError, w)
      | Some (JsonFile v) \<Rightarrow> (Inr v, w))"

text \<open>
  \<^verbatim>\<open>path.write_text(json.dumps(v, indent=2))\<close>: a regular file is overwritten, a new file needs
  its directory.
\<close>

definition write_json :: "path \<Rightarrow> json \<Rightarrow> unit io" where
  "write_json p v w =
     (case node_at (fs w) p of
        Some Directory \<Rightarrow> (Inl IsADirectoryError, w)
      | Some _ \<Rightarrow> (Inr (), w\<lparr>fs := (fs w)(p \<mapsto> JsonFile v)\<rparr>)
      | None \<Rightarrow>
          (case node_at (fs w) (parent p) of
             None \<Rightarrow> (Inl FileNotFoundError, w)
           | Some Directory \<Rightarrow> (Inr (), w\<lparr>fs := (fs w)(p \<mapsto> JsonFile v)\<rparr>)
           | Some _ \<Rightarrow> (Inl NotADirectoryError, w)))"

subsection \<open>Python's operations on a value of unknown type\<close>

text \<open>\<^verbatim>\<open>x[k]\<close> for a string key.\<close>

fun getitem :: "json \<Rightarrow> string \<Rightarrow> error + json" where
  "getitem (JObj d) k = (case map_of d k of None \<Rightarrow> Inl (KeyError k) | Some v \<Rightarrow> Inr v)"
| "getitem _ k = Inl TypeError"

text \<open>\<^verbatim>\<open>x[k] = v\<close> for a string key.\<close>

fun setitem :: "json \<Rightarrow> string \<Rightarrow> json \<Rightarrow> error + json" where
  "setitem (JObj d) k v = Inr (JObj (AList.update k v d))"
| "setitem _ k v = Inl TypeError"

text \<open>\<^verbatim>\<open>x.get(k, default)\<close>: only a dict has the method.\<close>

fun get_default :: "json \<Rightarrow> string \<Rightarrow> json \<Rightarrow> error + json" where
  "get_default (JObj d) k dflt = Inr (case map_of d k of None \<Rightarrow> dflt | Some v \<Rightarrow> v)"
| "get_default _ k dflt = Inl AttributeError"

text \<open>
  \<^verbatim>\<open>k in x\<close> for a string \<open>k\<close>: a key of a dict, an element of a list, a substring of a
  string; the other values are not iterable.
\<close>

fun contains :: "json \<Rightarrow> string \<Rightarrow> error + bool" where
  "contains (JObj d) k = Inr (k \<in> fst ` set d)"
| "contains (JList xs) k = Inr (JStr k \<in> set xs)"
| "contains (JStr s) k = Inr (sublist k s)"
| "contains _ k = Inl TypeError"

section \<open>Schema validation\<close>

definition REQUIRED_TOP_LEVEL :: "string list" where
  "REQUIRED_TOP_LEVEL = [''version'', ''project'', ''currentWork'', ''lastSession'']"

definition REQUIRED_CURRENT_WORK :: "string list" where
  "REQUIRED_CURRENT_WORK = [''type'', ''plan'', ''planTask'', ''debugIssue'', ''debugPhase'']"

definition REQUIRED_LAST_SESSION :: "string list" where
  "REQUIRED_LAST_SESSION =
     [''date'', ''duration_minutes'', ''summary'', ''events'', ''commits'', ''nextSteps'']"

text \<open>
  The three loops \<^verbatim>\<open>for field in FIELDS: if field not in x: raise ...(msg + field)\<close>.
\<close>

fun check_fields :: "string \<Rightarrow> json \<Rightarrow> string list \<Rightarrow> error + unit" where
  "check_fields msg x [] = Inr ()"
| "check_fields msg x (field # rest) =
     (case contains x field of
        Inl e \<Rightarrow> Inl e
      | Inr False \<Rightarrow> Inl (ProgressValidationError (msg @ field))
      | Inr True \<Rightarrow> check_fields msg x rest)"

text \<open>
  \<^verbatim>\<open>validate_progress_schema(data: Dict[str, Any])\<close>. The parameter \<open>str_of\<close> is Python's
  \<^verbatim>\<open>str\<close>, which the f-string applies to the version found.
\<close>

definition validate_progress_schema :: "(json \<Rightarrow> string) \<Rightarrow> pydict \<Rightarrow> error + unit" where
  "validate_progress_schema str_of d =
     (case map_of d ''version'' of
        None \<Rightarrow> Inl (ProgressValidationError ''Missing required field: version'')
      | Some v \<Rightarrow>
          if v \<noteq> JInt 2
          then Inl (ProgressValidationError (''Expected version 2, got '' @ str_of v))
          else
            (case check_fields ''Missing required field: '' (JObj d) REQUIRED_TOP_LEVEL of
               Inl e \<Rightarrow> Inl e
             | Inr _ \<Rightarrow>
                 (case check_fields ''Missing currentWork field: ''
                         (case map_of d ''currentWork'' of None \<Rightarrow> JObj [] | Some c \<Rightarrow> c)
                         REQUIRED_CURRENT_WORK of
                    Inl e \<Rightarrow> Inl e
                  | Inr _ \<Rightarrow>
                      check_fields ''Missing lastSession field: ''
                        (case map_of d ''lastSession'' of None \<Rightarrow> JObj [] | Some l \<Rightarrow> l)
                        REQUIRED_LAST_SESSION)))"

section \<open>Events\<close>

datatype EventType =
    SESSION_START
  | SESSION_END
  | CHECKPOINT
  | PLAN_STARTED
  | PLAN_TASK_COMPLETED
  | DEBUG_STARTED
  | DEBUG_ROOT_CAUSE
  | DEBUG_RESOLVED
  | FEATURE_STARTED
  | FEATURE_COMPLETED

fun EventType_value :: "EventType \<Rightarrow> string" where
  "EventType_value SESSION_START = ''session_start''"
| "EventType_value SESSION_END = ''session_end''"
| "EventType_value CHECKPOINT = ''checkpoint''"
| "EventType_value PLAN_STARTED = ''plan_started''"
| "EventType_value PLAN_TASK_COMPLETED = ''plan_task_completed''"
| "EventType_value DEBUG_STARTED = ''debug_started''"
| "EventType_value DEBUG_ROOT_CAUSE = ''debug_root_cause''"
| "EventType_value DEBUG_RESOLVED = ''debug_resolved''"
| "EventType_value FEATURE_STARTED = ''feature_started''"
| "EventType_value FEATURE_COMPLETED = ''feature_completed''"

text \<open>
  \<^verbatim>\<open>ProgressEvent.to_dict\<close>: the dict of type and timestamp, then \<^verbatim>\<open>result.update(self.data)\<close>,
  which assigns the payload's items in their order.
\<close>

definition to_dict :: "ProgressEvent \<Rightarrow> pydict" where
  "to_dict e =
     fold (\<lambda>(k, v). AList.update k v) (ev_data e)
       [(''type'', JStr (ev_type e)), (''timestamp'', JStr (timestamp e))]"

text \<open>\<^verbatim>\<open>create_event(event_type, **kwargs)\<close>; the keyword arguments are a dict.\<close>

definition create_event :: "EventType \<Rightarrow> pydict \<Rightarrow> ProgressEvent io" where
  "create_event event_type kwargs =
     bind_io utcnow (\<lambda>now.
     return_io \<lparr>ev_type = EventType_value event_type,
                timestamp = isoformat now @ ''Z'',
                ev_data = kwargs\<rparr>)"

datatype WorkType = GENERAL | PLAN | DEBUG | FEATURE

fun WorkType_value :: "WorkType \<Rightarrow> string" where
  "WorkType_value GENERAL = ''general''"
| "WorkType_value PLAN = ''plan''"
| "WorkType_value DEBUG = ''debug''"
| "WorkType_value FEATURE = ''feature''"

section \<open>The progress record on disk\<close>

text \<open>The dict literal reads the clock twice, for \<^verbatim>\<open>lastUpdated\<close> and then for \<^verbatim>\<open>date\<close>.\<close>

definition create_empty_progress :: "string \<Rightarrow> json io" where
  "create_empty_progress project_name =
     bind_io utcnow (\<lambda>now1.
     bind_io utcnow (\<lambda>now2.
     return_io (JObj
       [(''version'', JInt 2),
        (''lastUpdated'', JStr (isoformat now1 @ ''Z'')),
        (''project'', JStr project_name),
        (''currentWork'', JObj
           [(''type'', JStr ''general''),
            (''plan'', JNull),
            (''planTask'', JNull),
            (''debugIssue'', JNull),
            (''debugPhase'', JNull)]),
        (''lastSession'', JObj
           [(''date'', JStr (strftime_ymd now2)),
            (''duration_minutes'', JInt 0),
            (''summary'', JStr []),
            (''events'', JList []),
            (''commits'', JList []),
            (''nextSteps'', JList [])]),
        (''recentSessions'', JList []),
        (''knownIssues'', JList [])])))"

text \<open>
  \<^verbatim>\<open>_load_progress\<close> and \<^verbatim>\<open>_save_progress\<close> of the source, without the leading underscore.
\<close>

definition load_progress :: "path \<Rightarrow> json io" where
  "load_progress path =
     bind_io (path_exists path) (\<lambda>ex.
     if \<not> ex then
       bind_io (create_empty_progress (name (parent path))) (\<lambda>data.
       bind_io (write_json path data) (\<lambda>_.
       return_io data))
     else read_json path)"

definition save_progress :: "path \<Rightarrow> json \<Rightarrow> unit io" where
  "save_progress path data =
     bind_io utcnow (\<lambda>now.
     bind_io (lift_io (setitem data ''lastUpdated'' (JStr (isoformat now @ ''Z'')))) (\<lambda>data.
     write_json path data))"

section \<open>Sessions\<close>

text \<open>\<^verbatim>\<open>_session_events[session_id] = events\<close>\<close>

definition set_session_events :: "string \<Rightarrow> ProgressEvent list \<Rightarrow> unit io" where
  "set_session_events session_id events w =
     (Inr (), w\<lparr>session_events := (session_events w)(session_id \<mapsto> events)\<rparr>)"

text \<open>\<^verbatim>\<open>if session_id in _session_events: del _session_events[session_id]\<close>\<close>

definition del_session_events :: "string \<Rightarrow> unit io" where
  "del_session_events session_id w =
     (Inr (), w\<lparr>session_events := (session_events w)(session_id := None)\<rparr>)"

text \<open>\<^verbatim>\<open>if session_id not in _session_events: _session_events[session_id] = []\<close>\<close>

definition ensure_session_events :: "string \<Rightarrow> unit io" where
  "ensure_session_events session_id w =
     (Inr (),
      if session_events w session_id = None
      then w\<lparr>session_events := (session_events w)(session_id \<mapsto> [])\<rparr>
      else w)"

text \<open>\<^verbatim>\<open>_session_events[session_id].append(e)\<close>\<close>

definition append_session_event :: "string \<Rightarrow> ProgressEvent \<Rightarrow> unit io" where
  "append_session_event session_id e w =
     (case session_events w session_id of
        None \<Rightarrow> (Inl (KeyError session_id), w)
      | Some events \<Rightarrow>
          (Inr (), w\<lparr>session_events := (session_events w)(session_id \<mapsto> events @ [e])\<rparr>))"

text \<open>
  \<^verbatim>\<open>events = _session_events.get(session_id, []); events.append(e)\<close>. When the session has
  a buffer, \<^verbatim>\<open>events\<close> is that very list, so the append changes the global too; otherwise the
  list is a fresh one that the global never sees.
\<close>

definition get_and_append :: "string \<Rightarrow> ProgressEvent \<Rightarrow> ProgressEvent list io" where
  "get_and_append session_id e w =
     (case session_events w session_id of
        None \<Rightarrow> (Inr [e], w)
      | Some events \<Rightarrow>
          (Inr (events @ [e]),
           w\<lparr>session_events := (session_events w)(session_id \<mapsto> events @ [e])\<rparr>))"

text \<open>
  \<^verbatim>\<open>data["currentWork"]["type"] = "general"\<close> changes the inner dict in place, so
  \<^verbatim>\<open>data\<close> holds the changed dict under the same key.
\<close>

definition start_session :: "path \<Rightarrow> string \<Rightarrow> unit io" where
  "start_session path session_id =
     bind_io (load_progress path) (\<lambda>data.
     bind_io (lift_io (getitem data ''currentWork'')) (\<lambda>current_work.
     bind_io (lift_io (setitem current_work ''type'' (JStr ''general''))) (\<lambda>current_work.
     bind_io (lift_io (setitem data ''currentWork'' current_work)) (\<lambda>data.
     bind_io (create_event SESSION_START []) (\<lambda>e.
     bind_io (set_session_events session_id [e]) (\<lambda>_.
     save_progress path data))))))"

definition end_session ::
  "path \<Rightarrow> string \<Rightarrow> int \<Rightarrow> string \<Rightarrow> json list \<Rightarrow> string list option \<Rightarrow> unit io" where
  "end_session path session_id duration_minutes summary commits next_steps =
     bind_io (load_progress path) (\<lambda>data.
     bind_io (create_event SESSION_END [(''duration'', JInt duration_minutes)]) (\<lambda>e.
     bind_io (get_and_append session_id e) (\<lambda>events.
     bind_io utcnow (\<lambda>now.
     bind_io (lift_io (setitem data ''lastSession'' (JObj
        [(''date'', JStr (strftime_ymd now)),
         (''duration_minutes'', JInt duration_minutes),
         (''summary'', JStr summary),
         (''events'', JList (map (\<lambda>e. JObj (to_dict e)) events)),
         (''commits'', JList commits),
         (''nextSteps'', JList (map JStr (case next_steps of None \<Rightarrow> [] | Some xs \<Rightarrow> xs)))])))
       (\<lambda>data.
     bind_io (lift_io (setitem data ''currentWork'' (JObj
        [(''type'', JStr ''general''),
         (''plan'', JNull),
         (''planTask'', JNull),
         (''debugIssue'', JNull),
         (''debugPhase'', JNull)])))
       (\<lambda>data.
     bind_io (del_session_events session_id) (\<lambda>_.
     save_progress path data)))))))"

text \<open>
  \<^verbatim>\<open>add_event(path, session_id, event_type, **kwargs)\<close>. The payload is the keyword
  arguments of the call. A keyword that is the name of one of the three parameters before
  \<^verbatim>\<open>**kwargs\<close> cannot be bound: Python raises a \<^verbatim>\<open>TypeError\<close> (multiple values for the
  argument) before the body runs. \<open>payload_binds\<close> says that no keyword is such a name.
  The body does not use \<^verbatim>\<open>path\<close>.
\<close>

definition payload_binds :: "pydict \<Rightarrow> bool" where
  "payload_binds kwargs =
     (\<forall>k \<in> fst ` set kwargs. k \<notin> set [''path'', ''session_id'', ''event_type''])"

definition add_event :: "path \<Rightarrow> string \<Rightarrow> EventType \<Rightarrow> pydict \<Rightarrow> unit io" where
  "add_event path session_id event_type kwargs =
     (if \<not> payload_binds kwargs then lift_io (Inl TypeError)
      else
        bind_io (ensure_session_events session_id) (\<lambda>_.
        bind_io (create_event event_type kwargs) (\<lambda>e.
        append_session_event session_id e)))"

section \<open>Current work\<close>

definition get_current_work :: "path \<Rightarrow> json io" where
  "get_current_work path =
     bind_io (load_progress path) (\<lambda>data.
     lift_io (get_default data ''currentWork'' (JObj [])))"

definition opt_str :: "string option \<Rightarrow> json" where
  "opt_str x = (case x of None \<Rightarrow> JNull | Some s \<Rightarrow> JStr s)"

definition opt_int :: "int option \<Rightarrow> json" where
  "opt_int x = (case x of None \<Rightarrow> JNull | Some n \<Rightarrow> JInt n)"

definition set_current_work ::
  "path \<Rightarrow> WorkType \<Rightarrow> string option \<Rightarrow> int option \<Rightarrow> string option \<Rightarrow> string option \<Rightarrow>
     string option \<Rightarrow> unit io" where
  "set_current_work path work_type plan plan_task debug_issue debug_phase feature_id =
     bind_io (load_progress path) (\<lambda>data.
     bind_io (lift_io (setitem data ''currentWork'' (JObj
        [(''type'', JStr (WorkType_value work_type)),
         (''plan'', opt_str plan),
         (''planTask'', opt_int plan_task),
         (''debugIssue'', opt_str debug_issue),
         (''debugPhase'', opt_str debug_phase),
         (''featureId'', opt_str feature_id)])))
       (\<lambda>data.
     save_progress path data))"

section \<open>Finding the progress file\<close>

definition PROGRESS_FILENAME :: string where
  "PROGRESS_FILENAME = ''project-progress.json''"

text \<open>
  The loop \<^verbatim>\<open>while current != current.parent\<close>. \<open>Some p\<close> is its \<^verbatim>\<open>return progress_path\<close>;
  \<open>None\<close> is leaving the loop, by the \<^verbatim>\<open>break\<close> at a \<^verbatim>\<open>.git\<close> or at the anchor.
\<close>

function walk_up :: "(path \<rightharpoonup> node) \<Rightarrow> path \<Rightarrow> path option" where
  "walk_up f current =
     (if current \<noteq> parent current then
        if node_at f (joinpath current PROGRESS_FILENAME) \<noteq> None
        then Some (joinpath current PROGRESS_FILENAME)
        else if node_at f (joinpath current ''.git'') \<noteq> None then None
        else walk_up f (parent current)
      else None)"
  by pat_completeness auto
termination
proof (relation "measure (\<lambda>(f, current). length current)")
  show "wf (measure (\<lambda>(f :: path \<rightharpoonup> node, current :: path). length current))"
    by simp
next
  fix f :: "path \<rightharpoonup> node" and current :: path
  assume "current \<noteq> parent current"
  then have "current \<noteq> []"
    by (auto simp: parent_def)
  then show "((f, parent current), (f, current)) \<in> measure (\<lambda>(f, current). length current)"
    by (simp add: parent_def)
qed

declare walk_up.simps [simp del]

definition find_progress_file :: "path \<Rightarrow> bool \<Rightarrow> path option io" where
  "find_progress_file cwd create_if_missing =
     bind_io (path_exists (joinpath cwd PROGRESS_FILENAME)) (\<lambda>ex.
     if ex then return_io (Some (joinpath cwd PROGRESS_FILENAME))
     else
       bind_io (\<lambda>w. (Inr (walk_up (fs w) cwd), w)) (\<lambda>found.
       case found of
         Some progress_path \<Rightarrow> return_io (Some progress_path)
       | None \<Rightarrow>
           if create_if_missing then
             bind_io (create_empty_progress (name cwd)) (\<lambda>data.
             bind_io (write_json (joinpath cwd PROGRESS_FILENAME) data) (\<lambda>_.
             return_io (Some (joinpath cwd PROGRESS_FILENAME))))
           else return_io None))"

section \<open>Definitions used to state the properties\<close>

text \<open>The first field of a list that is not a key of a dict.\<close>

definition first_missing :: "string list \<Rightarrow> pydict \<Rightarrow> string option" where
  "first_missing ks d = find (\<lambda>k. k \<notin> fst ` set d) ks"

text \<open>The dict stored under a key of a record (empty when the key is absent).\<close>

definition sub_record :: "pydict \<Rightarrow> string \<Rightarrow> pydict" where
  "sub_record d k = (case map_of d k of Some (JObj c) \<Rightarrow> c | _ \<Rightarrow> [])"

text \<open>
  In a progress record \<^verbatim>\<open>currentWork\<close> and \<^verbatim>\<open>lastSession\<close> are records themselves: where
  the key is present, its value is a dict.
\<close>

definition sub_records_are_dicts :: "pydict \<Rightarrow> bool" where
  "sub_records_are_dicts d =
     (\<forall>k \<in> {''currentWork'', ''lastSession''}.
        case map_of d k of None \<Rightarrow> True | Some (JObj c) \<Rightarrow> True | Some _ \<Rightarrow> False)"

text \<open>The record of the test \<^verbatim>\<open>test_valid_v2_schema\<close>.\<close>

definition valid_progress :: pydict where
  "valid_progress =
     [(''version'', JInt 2),
      (''lastUpdated'', JStr ''2025-12-11T18:00:00Z''),
      (''project'', JStr ''test-project''),
      (''currentWork'', JObj
         [(''type'', JStr ''general''),
          (''plan'', JNull),
          (''planTask'', JNull),
          (''debugIssue'', JNull),
          (''debugPhase'', JNull)]),
      (''lastSession'', JObj
         [(''date'', JStr ''2025-12-11''),
          (''duration_minutes'', JInt 45),
          (''summary'', JStr ''Test session''),
          (''events'', JList []),
          (''commits'', JList []),
          (''nextSteps'', JList [])]),
      (''recentSessions'', JList []),
      (''knownIssues'', JList [])]"

text \<open>
  Two records with version 2 and every top-level key, whose \<^verbatim>\<open>currentWork\<close> is not a dict:
  null in the first, the list of the five field names in the second.
\<close>

definition null_current_work :: pydict where
  "null_current_work =
     [(''version'', JInt 2),
      (''project'', JStr ''test-project''),
      (''currentWork'', JNull),
      (''lastSession'', JObj
         [(''date'', JStr ''2025-12-11''),
          (''duration_minutes'', JInt 45),
          (''summary'', JStr ''Test session''),
          (''events'', JList []),
          (''commits'', JList []),
          (''nextSteps'', JList [])])]"

definition list_current_work :: pydict where
  "list_current_work =
     [(''version'', JInt 2),
      (''project'', JStr ''test-project''),
      (''currentWork'', JList
         [JStr ''type'', JStr ''plan'', JStr ''planTask'', JStr ''debugIssue'',
          JStr ''debugPhase'']),
      (''lastSession'', JObj
         [(''date'', JStr ''2025-12-11''),
          (''duration_minutes'', JInt 45),
          (''summary'', JStr ''Test session''),
          (''events'', JList []),
          (''commits'', JList []),
          (''nextSteps'', JList [])])]"

text \<open>The \<^verbatim>\<open>currentWork\<close> that \<^verbatim>\<open>create_empty_progress\<close> and \<^verbatim>\<open>end_session\<close> write.\<close>

definition default_current_work :: json where
  "default_current_work =
     JObj [(''type'', JStr ''general''),
           (''plan'', JNull),
           (''planTask'', JNull),
           (''debugIssue'', JNull),
           (''debugPhase'', JNull)]"

text \<open>
  The record that \<^verbatim>\<open>create_empty_progress\<close> returns when its two readings of the clock are
  \<open>now1\<close> and \<open>now2\<close>.
\<close>

definition default_record :: "string \<Rightarrow> datetime \<Rightarrow> datetime \<Rightarrow> pydict" where
  "default_record project_name now1 now2 =
     [(''version'', JInt 2),
      (''lastUpdated'', JStr (isoformat now1 @ ''Z'')),
      (''project'', JStr project_name),
      (''currentWork'', default_current_work),
      (''lastSession'', JObj
         [(''date'', JStr (strftime_ymd now2)),
          (''duration_minutes'', JInt 0),
          (''summary'', JStr []),
          (''events'', JList []),
          (''commits'', JList []),
          (''nextSteps'', JList [])]),
      (''recentSessions'', JList []),
      (''knownIssues'', JList [])]"

text \<open>The \<^verbatim>\<open>session_end\<close> event that \<^verbatim>\<open>end_session\<close> creates in the world \<open>w\<close>.\<close>

definition session_end_event :: "world \<Rightarrow> int \<Rightarrow> ProgressEvent" where
  "session_end_event w duration_minutes =
     \<lparr>ev_type = ''session_end'',
      timestamp = isoformat (clock w (ticks w)) @ ''Z'',
      ev_data = [(''duration'', JInt duration_minutes)]\<rparr>"

text \<open>
  The \<^verbatim>\<open>lastSession\<close> that \<^verbatim>\<open>end_session\<close> writes for a buffer \<open>events\<close>, when the load left
  the world \<open>w\<close>.
\<close>

definition last_session_record ::
  "world \<Rightarrow> int \<Rightarrow> string \<Rightarrow> ProgressEvent list \<Rightarrow> json list \<Rightarrow> string list \<Rightarrow> json" where
  "last_session_record w duration_minutes summary events commits next_steps =
     JObj [(''date'', JStr (strftime_ymd (clock w (Suc (ticks w))))),
           (''duration_minutes'', JInt duration_minutes),
           (''summary'', JStr summary),
           (''events'', JList (map (\<lambda>e. JObj (to_dict e)) events)),
           (''commits'', JList commits),
           (''nextSteps'', JList (map JStr next_steps))]"

text \<open>Reading a value by a chain of keys, as \<^verbatim>\<open>data["lastSession"]["summary"]\<close> does.\<close>

fun lookup_in :: "json \<Rightarrow> string list \<Rightarrow> json option" where
  "lookup_in v [] = Some v"
| "lookup_in (JObj d) (k # ks) = (case map_of d k of None \<Rightarrow> None | Some v \<Rightarrow> lookup_in v ks)"
| "lookup_in _ (k # ks) = None"

text \<open>The value under a chain of keys in the record persisted at a path.\<close>

definition stored :: "world \<Rightarrow> path \<Rightarrow> string list \<Rightarrow> json option" where
  "stored w p ks = (case node_at (fs w) p of Some (JsonFile v) \<Rightarrow> lookup_in v ks | _ \<Rightarrow> None)"

text \<open>
  A concrete world: the directory \<^verbatim>\<open>/tmp\<close> of the tests with a fresh default record in it,
  no session in memory, and a clock.
\<close>

definition clock0 :: "nat \<Rightarrow> datetime" where
  "clock0 n = \<lparr>isoformat = ''2025-12-11T18:00:00'', strftime_ymd = ''2025-12-11''\<rparr>"

definition progress_file :: path where
  "progress_file = [''tmp'', ''project-progress.json'']"

definition world0 :: world where
  "world0 =
     \<lparr>fs = [[''tmp''] \<mapsto> Directory,
             progress_file \<mapsto> JsonFile (JObj (default_record ''test-project'' (clock0 0) (clock0 0)))],
      session_events = Map.empty,
      clock = clock0,
      ticks = 0\<rparr>"

text \<open>The same directory without the file.\<close>

definition world_empty :: world where
  "world_empty =
     \<lparr>fs = [[''tmp''] \<mapsto> Directory],
      session_events = Map.empty,
      clock = clock0,
      ticks = 0\<rparr>"

text \<open>The world after \<^verbatim>\<open>start_session\<close> for the session \<^verbatim>\<open>test-123\<close> of the tests.\<close>

definition world1 :: world where
  "world1 = snd (start_session progress_file ''test-123'' world0)"

text \<open>
  The payload fields that belong to each work type in the spec's data model, and the
  statement that in a \<^verbatim>\<open>currentWork\<close> record the fields of the other types are null.
\<close>

fun fields_of :: "WorkType \<Rightarrow> string list" where
  "fields_of GENERAL = []"
| "fields_of PLAN = [''plan'', ''planTask'']"
| "fields_of DEBUG = [''debugIssue'', ''debugPhase'']"
| "fields_of FEATURE = [''featureId'']"

definition other_types_nulled :: "WorkType \<Rightarrow> json \<Rightarrow> bool" where
  "other_types_nulled t cw =
     (\<forall>k \<in> set [''plan'', ''planTask'', ''debugIssue'', ''debugPhase'', ''featureId''].
        k \<notin> set (fields_of t) \<longrightarrow> lookup_in cw [k] = Some JNull)"

text \<open>The payload fields for which a call of \<^verbatim>\<open>set_current_work\<close> passes a value.\<close>

definition passed_fields ::
  "string option \<Rightarrow> int option \<Rightarrow> string option \<Rightarrow> string option \<Rightarrow> string option \<Rightarrow>
     string list" where
  "passed_fields plan plan_task debug_issue debug_phase feature_id =
     (if plan = None then [] else [''plan'']) @
     (if plan_task = None then [] else [''planTask'']) @
     (if debug_issue = None then [] else [''debugIssue'']) @
     (if debug_phase = None then [] else [''debugPhase'']) @
     (if feature_id = None then [] else [''featureId''])"

text \<open>The record that \<^verbatim>\<open>set_current_work\<close> stores under \<^verbatim>\<open>currentWork\<close>.\<close>

definition current_work_record ::
  "WorkType \<Rightarrow> string option \<Rightarrow> int option \<Rightarrow> string option \<Rightarrow> string option \<Rightarrow>
     string option \<Rightarrow> json" where
  "current_work_record work_type plan plan_task debug_issue debug_phase feature_id =
     JObj [(''type'', JStr (WorkType_value work_type)),
           (''plan'', opt_str plan),
           (''planTask'', opt_int plan_task),
           (''debugIssue'', opt_str debug_issue),
           (''debugPhase'', opt_str debug_phase),
           (''featureId'', opt_str feature_id)]"

text \<open>
  The directories the walk visits: \<open>cwd\<close>, its parent, and so on upwards, short of the
  anchor (the file system root), which the loop never enters.
\<close>

definition walk_dirs :: "path \<Rightarrow> path list" where
  "walk_dirs cwd = rev (tl (prefixes cwd))"

definition has_file :: "(path \<rightharpoonup> node) \<Rightarrow> path \<Rightarrow> bool" where
  "has_file f d = (node_at f (joinpath d PROGRESS_FILENAME) \<noteq> None)"

definition has_git :: "(path \<rightharpoonup> node) \<Rightarrow> path \<Rightarrow> bool" where
  "has_git f d = (node_at f (joinpath d ''.git'') \<noteq> None)"

text \<open>
  The resolution as the specification words it: the file in \<open>cwd\<close> if there is one;
  otherwise the walk stops at the first visited directory that holds the file or a
  \<^verbatim>\<open>.git\<close>, and finds the file only if that directory holds it.
\<close>

definition resolve :: "(path \<rightharpoonup> node) \<Rightarrow> path \<Rightarrow> path option" where
  "resolve f cwd =
     (if has_file f cwd then Some (joinpath cwd PROGRESS_FILENAME)
      else
        (case find (\<lambda>d. has_file f d \<or> has_git f d) (walk_dirs cwd) of
           None \<Rightarrow> None
         | Some d \<Rightarrow> if has_file f d then Some (joinpath d PROGRESS_FILENAME) else None))"

text \<open>
  The tree of the specification's example: \<^verbatim>\<open>root/.git\<close>, \<^verbatim>\<open>root/sub\<close>, and the progress
  file only in \<^verbatim>\<open>root/other\<close>.
\<close>

definition world_tree :: world where
  "world_tree =
     \<lparr>fs = [[''root''] \<mapsto> Directory,
             [''root'', ''.git''] \<mapsto> Directory,
             [''root'', ''sub''] \<mapsto> Directory,
             [''root'', ''other''] \<mapsto> Directory,
             [''root'', ''other'', ''project-progress.json''] \<mapsto> JsonFile (JObj [])],
      session_events = Map.empty,
      clock = clock0,
      ticks = 0\<rparr>"

section \<open>Properties of schema validation\<close>

lemma check_fields_dict:
  "check_fields msg (JObj c) ks =
     (case first_missing ks c of
        None \<Rightarrow> Inr ()
      | Some f \<Rightarrow> Inl (ProgressValidationError (msg @ f)))"
  by (induction ks) (auto simp: first_missing_def)

lemma first_missing_None: "first_missing ks c = None \<longleftrightarrow> set ks \<subseteq> fst ` set c"
  by (auto simp: first_missing_def find_None_iff)

lemma validate_dicts:
  assumes "sub_records_are_dicts d"
  shows "validate_progress_schema str_of d =
     (case map_of d ''version'' of
        None \<Rightarrow> Inl (ProgressValidationError ''Missing required field: version'')
      | Some v \<Rightarrow>
          if v \<noteq> JInt 2
          then Inl (ProgressValidationError (''Expected version 2, got '' @ str_of v))
          else
            (case first_missing REQUIRED_TOP_LEVEL d of
               Some f \<Rightarrow> Inl (ProgressValidationError (''Missing required field: '' @ f))
             | None \<Rightarrow>
                 (case first_missing REQUIRED_CURRENT_WORK (sub_record d ''currentWork'') of
                    Some f \<Rightarrow> Inl (ProgressValidationError (''Missing currentWork field: '' @ f))
                  | None \<Rightarrow>
                      (case first_missing REQUIRED_LAST_SESSION (sub_record d ''lastSession'') of
                         Some f \<Rightarrow>
                           Inl (ProgressValidationError (''Missing lastSession field: '' @ f))
                       | None \<Rightarrow> Inr ()))))"
proof -
  have cw: "(case map_of d ''currentWork'' of None \<Rightarrow> JObj [] | Some c \<Rightarrow> c)
              = JObj (sub_record d ''currentWork'')"
    using assms
    by (auto simp: sub_records_are_dicts_def sub_record_def split: option.splits json.splits)
  have ls: "(case map_of d ''lastSession'' of None \<Rightarrow> JObj [] | Some c \<Rightarrow> c)
              = JObj (sub_record d ''lastSession'')"
    using assms
    by (auto simp: sub_records_are_dicts_def sub_record_def split: option.splits json.splits)
  show ?thesis
    unfolding validate_progress_schema_def cw ls check_fields_dict
    by (simp split: option.splits)
qed

text \<open>
  Claim C1, as amended. For a record whose \<^verbatim>\<open>currentWork\<close> and \<^verbatim>\<open>lastSession\<close> are dicts,
  \<^verbatim>\<open>validate_progress_schema\<close> returns without raising exactly when \<^verbatim>\<open>version\<close> is 2 and every
  key of the three required lists is present (\<^verbatim>\<open>featureId\<close> is in none of them); otherwise it
  raises a \<^verbatim>\<open>ProgressValidationError\<close> and nothing else. The checks run in the order version
  present, version 2, top-level keys, \<^verbatim>\<open>currentWork\<close> keys, \<^verbatim>\<open>lastSession\<close> keys, and the
  message names the first field that fails; for a version other than 2 the message contains
  \<^verbatim>\<open>version 2\<close>.
\<close>

theorem validate_progress_schema_exact:
  assumes "sub_records_are_dicts d"
  shows
    "(validate_progress_schema str_of d = Inr () \<longleftrightarrow>
        map_of d ''version'' = Some (JInt 2) \<and>
        set REQUIRED_TOP_LEVEL \<subseteq> fst ` set d \<and>
        set REQUIRED_CURRENT_WORK \<subseteq> fst ` set (sub_record d ''currentWork'') \<and>
        set REQUIRED_LAST_SESSION \<subseteq> fst ` set (sub_record d ''lastSession'')) \<and>
     (validate_progress_schema str_of d \<noteq> Inr () \<longrightarrow>
        (\<exists>msg. validate_progress_schema str_of d = Inl (ProgressValidationError msg))) \<and>
     (\<forall>v. map_of d ''version'' = Some v \<and> v \<noteq> JInt 2 \<longrightarrow>
        (\<exists>msg. validate_progress_schema str_of d = Inl (ProgressValidationError msg) \<and>
               sublist ''version 2'' msg)) \<and>
     validate_progress_schema str_of d =
       (case map_of d ''version'' of
          None \<Rightarrow> Inl (ProgressValidationError ''Missing required field: version'')
        | Some v \<Rightarrow>
            if v \<noteq> JInt 2
            then Inl (ProgressValidationError (''Expected version 2, got '' @ str_of v))
            else
              (case first_missing REQUIRED_TOP_LEVEL d of
                 Some f \<Rightarrow> Inl (ProgressValidationError (''Missing required field: '' @ f))
               | None \<Rightarrow>
                   (case first_missing REQUIRED_CURRENT_WORK (sub_record d ''currentWork'') of
                      Some f \<Rightarrow>
                        Inl (ProgressValidationError (''Missing currentWork field: '' @ f))
                    | None \<Rightarrow>
                        (case first_missing REQUIRED_LAST_SESSION
                                (sub_record d ''lastSession'') of
                           Some f \<Rightarrow>
                             Inl (ProgressValidationError (''Missing lastSession field: '' @ f))
                         | None \<Rightarrow> Inr ()))))"
proof -
  note eq = validate_dicts [OF assms, of str_of]
  have ok: "validate_progress_schema str_of d = Inr () \<longleftrightarrow>
        map_of d ''version'' = Some (JInt 2) \<and>
        set REQUIRED_TOP_LEVEL \<subseteq> fst ` set d \<and>
        set REQUIRED_CURRENT_WORK \<subseteq> fst ` set (sub_record d ''currentWork'') \<and>
        set REQUIRED_LAST_SESSION \<subseteq> fst ` set (sub_record d ''lastSession'')"
    unfolding eq first_missing_None [symmetric]
    by (simp split: option.splits)
  have only: "validate_progress_schema str_of d \<noteq> Inr () \<longrightarrow>
        (\<exists>msg. validate_progress_schema str_of d = Inl (ProgressValidationError msg))"
    unfolding eq by (simp split: option.splits)
  have "sublist ''version 2'' (''Expected version 2, got '' @ str_of v)" for v
  proof -
    have "''Expected version 2, got '' @ str_of v
            = ''Expected '' @ ''version 2'' @ ('', got '' @ str_of v)"
      by simp
    then show ?thesis
      unfolding sublist_def by blast
  qed
  then have v2: "\<forall>v. map_of d ''version'' = Some v \<and> v \<noteq> JInt 2 \<longrightarrow>
        (\<exists>msg. validate_progress_schema str_of d = Inl (ProgressValidationError msg) \<and>
               sublist ''version 2'' msg)"
    unfolding eq by simp
  from ok only v2 eq show ?thesis
    by blast
qed

theorem validate_progress_schema_exact_witness:
  "sub_records_are_dicts valid_progress \<and>
   validate_progress_schema (\<lambda>v. ''1'') valid_progress = Inr () \<and>
   sub_records_are_dicts [(''version'', JInt 1), (''project'', JStr ''test'')] \<and>
   validate_progress_schema (\<lambda>v. ''1'') [(''version'', JInt 1), (''project'', JStr ''test'')]
     = Inl (ProgressValidationError ''Expected version 2, got 1'') \<and>
   sub_records_are_dicts [(''version'', JInt 2)] \<and>
   validate_progress_schema (\<lambda>v. ''1'') [(''version'', JInt 2)]
     = Inl (ProgressValidationError ''Missing required field: project'')"
proof -
  have a: "sub_records_are_dicts valid_progress"
    by (simp add: sub_records_are_dicts_def valid_progress_def)
  have b: "sub_records_are_dicts [(''version'', JInt 1), (''project'', JStr ''test'')]"
    by (simp add: sub_records_are_dicts_def)
  have c: "sub_records_are_dicts [(''version'', JInt 2)]"
    by (simp add: sub_records_are_dicts_def)
  have "validate_progress_schema (\<lambda>v. ''1'') valid_progress = Inr ()"
    using validate_progress_schema_exact [OF a, of "\<lambda>v. ''1''"]
    by (simp add: valid_progress_def sub_record_def REQUIRED_TOP_LEVEL_def
        REQUIRED_CURRENT_WORK_def REQUIRED_LAST_SESSION_def)
  moreover have "validate_progress_schema (\<lambda>v. ''1'')
      [(''version'', JInt 1), (''project'', JStr ''test'')]
     = Inl (ProgressValidationError ''Expected version 2, got 1'')"
    using validate_progress_schema_exact [OF b, of "\<lambda>v. ''1''"]
    by simp
  moreover have "validate_progress_schema (\<lambda>v. ''1'') [(''version'', JInt 2)]
     = Inl (ProgressValidationError ''Missing required field: project'')"
    using validate_progress_schema_exact [OF c, of "\<lambda>v. ''1''"]
    by (simp add: first_missing_def REQUIRED_TOP_LEVEL_def)
  ultimately show ?thesis
    using a b c by blast
qed

text \<open>
  The claim as stated, for every record, fails where a sub-record is not a dict, since the
  membership test is Python's own. With a null \<^verbatim>\<open>currentWork\<close> the required fields are
  missing, and the validation raises a \<^verbatim>\<open>TypeError\<close>, not a \<^verbatim>\<open>ProgressValidationError\<close>.
  With the list of the five field names as \<^verbatim>\<open>currentWork\<close> the record has none of them as
  a key, and the validation returns without raising.
\<close>

theorem validate_progress_schema_counterexample:
  "\<not> set REQUIRED_CURRENT_WORK \<subseteq> fst ` set (sub_record null_current_work ''currentWork'') \<and>
   validate_progress_schema (\<lambda>v. ''2'') null_current_work = Inl TypeError \<and>
   \<not> set REQUIRED_CURRENT_WORK \<subseteq> fst ` set (sub_record list_current_work ''currentWork'') \<and>
   validate_progress_schema (\<lambda>v. ''2'') list_current_work = Inr ()"
proof -
  have a: "\<not> set REQUIRED_CURRENT_WORK
      \<subseteq> fst ` set (sub_record null_current_work ''currentWork'')"
    by (simp add: REQUIRED_CURRENT_WORK_def sub_record_def null_current_work_def)
  have b: "validate_progress_schema (\<lambda>v. ''2'') null_current_work = Inl TypeError"
    by (simp add: validate_progress_schema_def null_current_work_def REQUIRED_TOP_LEVEL_def
        REQUIRED_CURRENT_WORK_def)
  have c: "\<not> set REQUIRED_CURRENT_WORK
      \<subseteq> fst ` set (sub_record list_current_work ''currentWork'')"
    by (simp add: REQUIRED_CURRENT_WORK_def sub_record_def list_current_work_def)
  have d: "validate_progress_schema (\<lambda>v. ''2'') list_current_work = Inr ()"
    by (simp add: validate_progress_schema_def list_current_work_def REQUIRED_TOP_LEVEL_def
        REQUIRED_CURRENT_WORK_def REQUIRED_LAST_SESSION_def)
  from a b c d show ?thesis
    by simp
qed

section \<open>What the operations compute\<close>

text \<open>
  The operations as equations on the world, for the cases in which the load succeeds.
\<close>

lemma create_empty_progress_eq:
  "create_empty_progress project_name w =
     (Inr (JObj (default_record project_name (clock w (ticks w)) (clock w (Suc (ticks w))))),
      w\<lparr>ticks := Suc (Suc (ticks w))\<rparr>)"
  by (simp add: create_empty_progress_def bind_io_def utcnow_def return_io_def
      default_record_def default_current_work_def)

lemma load_progress_existing:
  "node_at (fs w) path = Some (JsonFile v) \<Longrightarrow> load_progress path w = (Inr v, w)"
  by (simp add: load_progress_def bind_io_def path_exists_def read_json_def)

lemma load_progress_missing:
  assumes "node_at (fs w) path = None" and "node_at (fs w) (parent path) = Some Directory"
  shows "load_progress path w =
     (Inr (JObj (default_record (name (parent path)) (clock w (ticks w)) (clock w (Suc (ticks w))))),
      w\<lparr>fs := (fs w)(path \<mapsto> JsonFile (JObj (default_record (name (parent path))
                  (clock w (ticks w)) (clock w (Suc (ticks w)))))),
        ticks := Suc (Suc (ticks w))\<rparr>)"
  using assms
  by (simp add: load_progress_def bind_io_def path_exists_def create_empty_progress_eq
      write_json_def return_io_def)

lemma save_progress_dict:
  assumes "node_at (fs w) path = Some (JsonFile v)"
  shows "save_progress path (JObj d) w =
     (Inr (),
      w\<lparr>fs := (fs w)(path \<mapsto> JsonFile (JObj
              (AList.update ''lastUpdated'' (JStr (isoformat (clock w (ticks w)) @ ''Z'')) d))),
        ticks := Suc (ticks w)\<rparr>)"
  using assms
  by (simp add: save_progress_def bind_io_def utcnow_def lift_io_def write_json_def)

text \<open>A successful load leaves the loaded value in the file, and the rest as it was.\<close>

lemma load_progress_ok:
  assumes "load_progress path w = (Inr v, w1)"
  shows "node_at (fs w1) path = Some (JsonFile v) \<and> session_events w1 = session_events w \<and>
         clock w1 = clock w \<and> (\<forall>q. q \<noteq> path \<longrightarrow> fs w1 q = fs w q)"
proof (cases "node_at (fs w) path")
  case None
  with assms show ?thesis
    by (auto simp: load_progress_def bind_io_def path_exists_def create_empty_progress_eq
        write_json_def return_io_def node_at_def split: option.splits node.splits if_splits)
next
  case (Some n)
  with assms show ?thesis
    by (auto simp: load_progress_def bind_io_def path_exists_def read_json_def
        split: node.splits)
qed

lemma create_event_eq:
  "create_event t kw w =
     (Inr \<lparr>ev_type = EventType_value t, timestamp = isoformat (clock w (ticks w)) @ ''Z'',
           ev_data = kw\<rparr>,
      w\<lparr>ticks := Suc (ticks w)\<rparr>)"
  by (simp add: create_event_def bind_io_def utcnow_def return_io_def)

lemma set_current_work_eval:
  assumes "load_progress path w = (Inr (JObj d), w1)"
  shows "set_current_work path work_type plan plan_task debug_issue debug_phase feature_id w =
     (Inr (),
      w1\<lparr>fs := (fs w1)(path \<mapsto> JsonFile (JObj
              (AList.update ''lastUpdated'' (JStr (isoformat (clock w1 (ticks w1)) @ ''Z''))
                (AList.update ''currentWork'' (JObj
                   [(''type'', JStr (WorkType_value work_type)),
                    (''plan'', opt_str plan),
                    (''planTask'', opt_int plan_task),
                    (''debugIssue'', opt_str debug_issue),
                    (''debugPhase'', opt_str debug_phase),
                    (''featureId'', opt_str feature_id)]) d)))),
         ticks := Suc (ticks w1)\<rparr>)"
proof -
  from load_progress_ok [OF assms]
  have "node_at (fs w1) path = Some (JsonFile (JObj d))"
    by simp
  then show ?thesis
    by (simp add: set_current_work_def bind_io_def assms lift_io_def save_progress_dict)
qed

lemma end_session_eval:
  assumes "load_progress path w = (Inr (JObj d), w1)"
  shows "end_session path session_id duration_minutes summary commits next_steps w =
     (Inr (),
      w1\<lparr>fs := (fs w1)(path \<mapsto> JsonFile (JObj
              (AList.update ''lastUpdated''
                 (JStr (isoformat (clock w1 (Suc (Suc (ticks w1)))) @ ''Z''))
                (AList.update ''currentWork'' default_current_work
                  (AList.update ''lastSession''
                     (last_session_record w1 duration_minutes summary
                        ((case session_events w1 session_id of None \<Rightarrow> [] | Some es \<Rightarrow> es)
                           @ [session_end_event w1 duration_minutes])
                        commits (case next_steps of None \<Rightarrow> [] | Some xs \<Rightarrow> xs))
                     d))))),
         session_events := (session_events w1)(session_id := None),
         ticks := Suc (Suc (Suc (ticks w1)))\<rparr>)"
proof -
  from load_progress_ok [OF assms]
  have "node_at (fs w1) path = Some (JsonFile (JObj d))"
    by simp
  then show ?thesis
    by (simp add: end_session_def bind_io_def assms lift_io_def save_progress_dict
        create_event_eq get_and_append_def utcnow_def del_session_events_def
        last_session_record_def session_end_event_def default_current_work_def
        split: option.splits)
qed

lemma start_session_eval:
  assumes "load_progress path w = (Inr (JObj d), w1)"
    and "map_of d ''currentWork'' = Some (JObj cw)"
  shows "start_session path session_id w =
     (Inr (),
      w1\<lparr>fs := (fs w1)(path \<mapsto> JsonFile (JObj
              (AList.update ''lastUpdated'' (JStr (isoformat (clock w1 (Suc (ticks w1))) @ ''Z''))
                (AList.update ''currentWork''
                   (JObj (AList.update ''type'' (JStr ''general'') cw)) d)))),
         session_events := (session_events w1)(session_id \<mapsto>
            [\<lparr>ev_type = ''session_start'',
              timestamp = isoformat (clock w1 (ticks w1)) @ ''Z'',
              ev_data = []\<rparr>]),
         ticks := Suc (Suc (ticks w1))\<rparr>)"
proof -
  from load_progress_ok [OF assms(1)]
  have "node_at (fs w1) path = Some (JsonFile (JObj d))"
    by simp
  then show ?thesis
    by (simp add: start_session_def bind_io_def assms lift_io_def save_progress_dict
        create_event_eq set_session_events_def)
qed

lemma add_event_eval:
  assumes "payload_binds kwargs"
  shows "add_event path session_id event_type kwargs w =
     (Inr (),
      w\<lparr>session_events := (session_events w)(session_id \<mapsto>
            (case session_events w session_id of None \<Rightarrow> [] | Some es \<Rightarrow> es) @
            [\<lparr>ev_type = EventType_value event_type,
              timestamp = isoformat (clock w (ticks w)) @ ''Z'',
              ev_data = kwargs\<rparr>]),
        ticks := Suc (ticks w)\<rparr>)"
  using assms
  by (simp add: add_event_def bind_io_def ensure_session_events_def create_event_eq
      append_session_event_def split: option.splits)

lemma add_event_raises:
  assumes "\<not> payload_binds kwargs"
  shows "add_event path session_id event_type kwargs w = (Inl TypeError, w)"
  using assms by (simp add: add_event_def lift_io_def)

lemma load_progress_path:
  assumes "load_progress path w = (Inr v, w1)"
  shows "path \<noteq> []"
  using load_progress_ok [OF assms] by (auto simp: node_at_def)

lemma start_session_dict:
  assumes "start_session path sid w = (Inr (), w1)"
  obtains d cw w0 where "load_progress path w = (Inr (JObj d), w0)"
    and "map_of d ''currentWork'' = Some (JObj cw)"
proof -
  obtain r w0 where l: "load_progress path w = (r, w0)"
    by (cases "load_progress path w")
  from assms l obtain v where r: "r = Inr v"
    by (cases r) (simp_all add: start_session_def bind_io_def)
  from assms l r obtain d where v: "v = JObj d"
    by (cases v) (simp_all add: start_session_def bind_io_def lift_io_def)
  from assms l r v obtain c where c: "map_of d ''currentWork'' = Some c"
    by (cases "map_of d ''currentWork''") (simp_all add: start_session_def bind_io_def lift_io_def)
  from assms l r v c obtain cw where "c = JObj cw"
    by (cases c) (simp_all add: start_session_def bind_io_def lift_io_def)
  with l r v c that show thesis
    by blast
qed

lemma end_session_stored:
  assumes "load_progress path w = (Inr (JObj d), w1)"
  shows "fst (end_session path sid duration_minutes summary commits next_steps w) = Inr () \<and>
     stored (snd (end_session path sid duration_minutes summary commits next_steps w)) path
         [''lastSession''] =
       Some (last_session_record w1 duration_minutes summary
               ((case session_events w1 sid of None \<Rightarrow> [] | Some es \<Rightarrow> es)
                  @ [session_end_event w1 duration_minutes])
               commits (case next_steps of None \<Rightarrow> [] | Some xs \<Rightarrow> xs)) \<and>
     stored (snd (end_session path sid duration_minutes summary commits next_steps w)) path
         [''currentWork''] = Some default_current_work \<and>
     session_events (snd (end_session path sid duration_minutes summary commits next_steps w))
       = (session_events w1)(sid := None)"
  using load_progress_path [OF assms]
  by (simp add: end_session_eval [OF assms] stored_def node_at_def AList.update_conv')

lemma lookup_in_step:
  "lookup_in v [k] = Some x \<Longrightarrow> lookup_in v (k # ks) = lookup_in x ks"
  by (cases v) (auto split: option.splits)

lemma stored_step:
  "stored w p [k] = Some x \<Longrightarrow> stored w p (k # ks) = lookup_in x ks"
  by (auto simp: stored_def lookup_in_step split: option.splits node.splits)

section \<open>The session lifecycle\<close>

text \<open>
  Claim C2. When the file at a path holds a fresh default record, \<^verbatim>\<open>start_session\<close> followed
  by \<^verbatim>\<open>end_session\<close> returns without raising, and the persisted record then has the
  duration, the summary and the commits of the call under \<^verbatim>\<open>lastSession\<close>, and a
  \<^verbatim>\<open>currentWork\<close> of type \<^verbatim>\<open>general\<close> whose four payload fields are null. The claim's
  call is the one with \<open>30\<close>, \<^verbatim>\<open>S\<close> and one commit.
\<close>

theorem session_lifecycle:
  assumes "node_at (fs w) path = Some (JsonFile (JObj (default_record project now1 now2)))"
  shows
    "fst (bind_io (start_session path sid)
            (\<lambda>_. end_session path sid duration_minutes summary commits next_steps) w) = Inr () \<and>
     stored (snd (bind_io (start_session path sid)
            (\<lambda>_. end_session path sid duration_minutes summary commits next_steps) w)) path
        [''lastSession'', ''duration_minutes''] = Some (JInt duration_minutes) \<and>
     stored (snd (bind_io (start_session path sid)
            (\<lambda>_. end_session path sid duration_minutes summary commits next_steps) w)) path
        [''lastSession'', ''summary''] = Some (JStr summary) \<and>
     stored (snd (bind_io (start_session path sid)
            (\<lambda>_. end_session path sid duration_minutes summary commits next_steps) w)) path
        [''lastSession'', ''commits''] = Some (JList commits) \<and>
     stored (snd (bind_io (start_session path sid)
            (\<lambda>_. end_session path sid duration_minutes summary commits next_steps) w)) path
        [''currentWork''] =
       Some (JObj [(''type'', JStr ''general''), (''plan'', JNull), (''planTask'', JNull),
                   (''debugIssue'', JNull), (''debugPhase'', JNull)])"
proof -
  let ?r = "default_record project now1 now2"
  have p: "path \<noteq> []"
    using assms by (auto simp: node_at_def)
  have l0: "load_progress path w = (Inr (JObj ?r), w)"
    by (rule load_progress_existing [OF assms])
  have cw: "map_of ?r ''currentWork'' = Some (JObj
      [(''type'', JStr ''general''), (''plan'', JNull), (''planTask'', JNull),
       (''debugIssue'', JNull), (''debugPhase'', JNull)])"
    by (simp add: default_record_def default_current_work_def)
  obtain w1 where s: "start_session path sid w = (Inr (), w1)"
    using start_session_eval [OF l0 cw] by blast
  obtain d1 where f1: "node_at (fs w1) path = Some (JsonFile (JObj d1))"
    using s p unfolding start_session_eval [OF l0 cw] by (auto simp: node_at_def)
  have l1: "load_progress path w1 = (Inr (JObj d1), w1)"
    by (rule load_progress_existing [OF f1])
  note e = end_session_stored [OF l1, of sid duration_minutes summary commits next_steps]
  have b: "bind_io (start_session path sid)
            (\<lambda>_. end_session path sid duration_minutes summary commits next_steps) w
          = end_session path sid duration_minutes summary commits next_steps w1"
    by (simp add: bind_io_def s)
  from e have ls: "stored (snd (end_session path sid duration_minutes summary commits next_steps w1))
      path (''lastSession'' # ks) =
       lookup_in (last_session_record w1 duration_minutes summary
               ((case session_events w1 sid of None \<Rightarrow> [] | Some es \<Rightarrow> es)
                  @ [session_end_event w1 duration_minutes])
               commits (case next_steps of None \<Rightarrow> [] | Some xs \<Rightarrow> xs)) ks" for ks
    by (auto simp: last_session_record_def intro!: stored_step)
  show ?thesis
    unfolding b ls using e
    by (simp add: last_session_record_def default_current_work_def)
qed

theorem session_lifecycle_witness:
  "node_at (fs world0) progress_file =
     Some (JsonFile (JObj (default_record ''test-project'' (clock0 0) (clock0 0)))) \<and>
   fst (bind_io (start_session progress_file ''test-123'')
          (\<lambda>_. end_session progress_file ''test-123'' 30 ''S''
                 [JObj [(''hash'', JStr ''abc123''), (''message'', JStr ''Test commit'')]] None)
          world0) = Inr () \<and>
   stored (snd (bind_io (start_session progress_file ''test-123'')
          (\<lambda>_. end_session progress_file ''test-123'' 30 ''S''
                 [JObj [(''hash'', JStr ''abc123''), (''message'', JStr ''Test commit'')]] None)
          world0)) progress_file [''lastSession'', ''duration_minutes''] = Some (JInt 30) \<and>
   stored (snd (bind_io (start_session progress_file ''test-123'')
          (\<lambda>_. end_session progress_file ''test-123'' 30 ''S''
                 [JObj [(''hash'', JStr ''abc123''), (''message'', JStr ''Test commit'')]] None)
          world0)) progress_file [''lastSession'', ''summary''] = Some (JStr ''S'') \<and>
   stored (snd (bind_io (start_session progress_file ''test-123'')
          (\<lambda>_. end_session progress_file ''test-123'' 30 ''S''
                 [JObj [(''hash'', JStr ''abc123''), (''message'', JStr ''Test commit'')]] None)
          world0)) progress_file [''lastSession'', ''commits''] =
     Some (JList [JObj [(''hash'', JStr ''abc123''), (''message'', JStr ''Test commit'')]]) \<and>
   stored (snd (bind_io (start_session progress_file ''test-123'')
          (\<lambda>_. end_session progress_file ''test-123'' 30 ''S''
                 [JObj [(''hash'', JStr ''abc123''), (''message'', JStr ''Test commit'')]] None)
          world0)) progress_file [''currentWork''] =
     Some (JObj [(''type'', JStr ''general''), (''plan'', JNull), (''planTask'', JNull),
                 (''debugIssue'', JNull), (''debugPhase'', JNull)])"
proof -
  have h: "node_at (fs world0) progress_file =
     Some (JsonFile (JObj (default_record ''test-project'' (clock0 0) (clock0 0))))"
    by (simp add: world0_def node_at_def progress_file_def)
  show ?thesis
    using h session_lifecycle [OF h, of "''test-123''" 30 "''S''"
        "[JObj [(''hash'', JStr ''abc123''), (''message'', JStr ''Test commit'')]]" None]
    by blast
qed

text \<open>
  Claim C3. After a \<^verbatim>\<open>start_session\<close> that returned, two calls of \<^verbatim>\<open>add_event\<close> and then
  \<^verbatim>\<open>end_session\<close> return without raising, and the persisted \<^verbatim>\<open>lastSession.events\<close> is
  the list of exactly four events: the \<^verbatim>\<open>session_start\<close> event, the first added event,
  the second added event, and the \<^verbatim>\<open>session_end\<close> event with the duration. The two
  events are events that were added: their payloads are keyword arguments that the call
  binds.
\<close>

theorem event_ordering:
  assumes "start_session path sid w = (Inr (), w1)"
    and "payload_binds kw1" and "payload_binds kw2"
  shows
    "fst (bind_io (add_event path sid t1 kw1) (\<lambda>_.
          bind_io (add_event path sid t2 kw2) (\<lambda>_.
          end_session path sid duration_minutes summary commits next_steps)) w1) = Inr () \<and>
     stored (snd (bind_io (add_event path sid t1 kw1) (\<lambda>_.
          bind_io (add_event path sid t2 kw2) (\<lambda>_.
          end_session path sid duration_minutes summary commits next_steps)) w1)) path
        [''lastSession'', ''events''] =
       Some (JList
         [JObj [(''type'', JStr ''session_start''),
                (''timestamp'', JStr (isoformat (clock w1 (ticks w1 - 2)) @ ''Z''))],
          JObj (to_dict \<lparr>ev_type = EventType_value t1,
                         timestamp = isoformat (clock w1 (ticks w1)) @ ''Z'',
                         ev_data = kw1\<rparr>),
          JObj (to_dict \<lparr>ev_type = EventType_value t2,
                         timestamp = isoformat (clock w1 (Suc (ticks w1))) @ ''Z'',
                         ev_data = kw2\<rparr>),
          JObj [(''type'', JStr ''session_end''),
                (''timestamp'', JStr (isoformat (clock w1 (Suc (Suc (ticks w1)))) @ ''Z'')),
                (''duration'', JInt duration_minutes)]])"
proof -
  from start_session_dict [OF assms(1)] obtain d cw w0
    where l: "load_progress path w = (Inr (JObj d), w0)"
      and c: "map_of d ''currentWork'' = Some (JObj cw)"
    by blast
  have p: "path \<noteq> []"
    by (rule load_progress_path [OF l])
  let ?e0 = "\<lparr>ev_type = ''session_start'', timestamp = isoformat (clock w0 (ticks w0)) @ ''Z'',
              ev_data = []\<rparr>"
  let ?e1 = "\<lparr>ev_type = EventType_value t1, timestamp = isoformat (clock w1 (ticks w1)) @ ''Z'',
              ev_data = kw1\<rparr>"
  let ?e2 = "\<lparr>ev_type = EventType_value t2,
              timestamp = isoformat (clock w1 (Suc (ticks w1))) @ ''Z'', ev_data = kw2\<rparr>"
  from assms(1) have w1: "session_events w1 sid = Some [?e0]" "clock w1 = clock w0"
    "ticks w1 = Suc (Suc (ticks w0))" "\<exists>d1. node_at (fs w1) path = Some (JsonFile (JObj d1))"
    unfolding start_session_eval [OF l c] using p by (auto simp: node_at_def)
  obtain w2 where a1: "add_event path sid t1 kw1 w1 = (Inr (), w2)"
    by (simp add: add_event_eval [OF assms(2)])
  obtain w3 where a2: "add_event path sid t2 kw2 w2 = (Inr (), w3)"
    by (simp add: add_event_eval [OF assms(3)])
  from a1 w1 have w2: "session_events w2 sid = Some [?e0, ?e1]" "clock w2 = clock w1"
    "ticks w2 = Suc (ticks w1)" "fs w2 = fs w1"
    unfolding add_event_eval [OF assms(2)] by auto
  from a2 w2 have w3: "session_events w3 sid = Some [?e0, ?e1, ?e2]" "clock w3 = clock w1"
    "ticks w3 = Suc (Suc (ticks w1))" "fs w3 = fs w1"
    unfolding add_event_eval [OF assms(3)] by auto
  from w1(4) w3(4) obtain d3 where "node_at (fs w3) path = Some (JsonFile (JObj d3))"
    by auto
  then have l3: "load_progress path w3 = (Inr (JObj d3), w3)"
    by (rule load_progress_existing)
  note e = end_session_stored [OF l3, of sid duration_minutes summary commits next_steps]
  have b: "bind_io (add_event path sid t1 kw1) (\<lambda>_.
          bind_io (add_event path sid t2 kw2) (\<lambda>_.
          end_session path sid duration_minutes summary commits next_steps)) w1
          = end_session path sid duration_minutes summary commits next_steps w3"
    by (simp add: bind_io_def a1 a2)
  from e have "stored (snd (end_session path sid duration_minutes summary commits next_steps w3))
      path [''lastSession'', ''events''] =
       lookup_in (last_session_record w3 duration_minutes summary
               ((case session_events w3 sid of None \<Rightarrow> [] | Some es \<Rightarrow> es)
                  @ [session_end_event w3 duration_minutes])
               commits (case next_steps of None \<Rightarrow> [] | Some xs \<Rightarrow> xs)) [''events'']"
    by (auto intro!: stored_step)
  then show ?thesis
    unfolding b using e w3 w1
    by (simp add: last_session_record_def session_end_event_def to_dict_def)
qed

theorem event_ordering_witness:
  "start_session progress_file ''test-123'' world0 = (Inr (), world1) \<and>
   payload_binds [(''plan'', JStr ''test.md'')] \<and>
   payload_binds [(''task'', JInt 1)] \<and>
   fst (bind_io (add_event progress_file ''test-123'' PLAN_STARTED [(''plan'', JStr ''test.md'')])
          (\<lambda>_.
        bind_io (add_event progress_file ''test-123'' PLAN_TASK_COMPLETED [(''task'', JInt 1)])
          (\<lambda>_.
        end_session progress_file ''test-123'' 30 ''Done'' [] None)) world1) = Inr () \<and>
   stored (snd (bind_io
          (add_event progress_file ''test-123'' PLAN_STARTED [(''plan'', JStr ''test.md'')])
          (\<lambda>_.
        bind_io (add_event progress_file ''test-123'' PLAN_TASK_COMPLETED [(''task'', JInt 1)])
          (\<lambda>_.
        end_session progress_file ''test-123'' 30 ''Done'' [] None)) world1))
      progress_file [''lastSession'', ''events''] =
     Some (JList
       [JObj [(''type'', JStr ''session_start''),
              (''timestamp'', JStr ''2025-12-11T18:00:00Z'')],
        JObj [(''type'', JStr ''plan_started''),
              (''timestamp'', JStr ''2025-12-11T18:00:00Z''),
              (''plan'', JStr ''test.md'')],
        JObj [(''type'', JStr ''plan_task_completed''),
              (''timestamp'', JStr ''2025-12-11T18:00:00Z''),
              (''task'', JInt 1)],
        JObj [(''type'', JStr ''session_end''),
              (''timestamp'', JStr ''2025-12-11T18:00:00Z''),
              (''duration'', JInt 30)]])"
proof -
  have l: "load_progress progress_file world0 =
      (Inr (JObj (default_record ''test-project'' (clock0 0) (clock0 0))), world0)"
    by (rule load_progress_existing) (simp add: world0_def node_at_def progress_file_def)
  have cw: "map_of (default_record ''test-project'' (clock0 0) (clock0 0)) ''currentWork'' =
      Some (JObj [(''type'', JStr ''general''), (''plan'', JNull), (''planTask'', JNull),
                  (''debugIssue'', JNull), (''debugPhase'', JNull)])"
    by (simp add: default_record_def default_current_work_def)
  note ev = start_session_eval [OF l cw, of "''test-123''"]
  have h: "start_session progress_file ''test-123'' world0 = (Inr (), world1)"
    by (simp add: world1_def ev)
  have c: "clock world1 = clock0"
    unfolding world1_def ev by (simp add: world0_def)
  have h1: "payload_binds [(''plan'', JStr ''test.md'')]"
    by (simp add: payload_binds_def)
  have h2: "payload_binds [(''task'', JInt 1)]"
    by (simp add: payload_binds_def)
  show ?thesis
    using h h1 h2
      event_ordering [OF h h1 h2, of PLAN_STARTED PLAN_TASK_COMPLETED 30 "''Done''" "[]" None]
    by (simp add: c clock0_def to_dict_def)
qed

section \<open>Properties of loading and saving\<close>

lemma filter_update_other:
  "filter (\<lambda>kv. fst kv \<noteq> k) (AList.update k v d) = filter (\<lambda>kv. fst kv \<noteq> k) d"
  by (induction d) auto

text \<open>
  Claim C4. When the file at a path holds a JSON object, loading it and saving what was
  loaded returns without raising and rewrites the file with the same record in which only
  \<^verbatim>\<open>lastUpdated\<close> was assigned: every value under another key (\<^verbatim>\<open>version\<close>,
  \<^verbatim>\<open>project\<close>, \<^verbatim>\<open>currentWork\<close>, \<^verbatim>\<open>lastSession\<close>, \<^verbatim>\<open>recentSessions\<close>,
  \<^verbatim>\<open>knownIssues\<close> and any other) reads as before, the other items are the same in the same
  order, and no other path changes.
\<close>

theorem save_load_roundtrip:
  assumes "node_at (fs w) path = Some (JsonFile (JObj d))"
  shows
    "fst (bind_io (load_progress path) (save_progress path) w) = Inr () \<and>
     node_at (fs (snd (bind_io (load_progress path) (save_progress path) w))) path =
       Some (JsonFile (JObj
         (AList.update ''lastUpdated'' (JStr (isoformat (clock w (ticks w)) @ ''Z'')) d))) \<and>
     (\<forall>k ks. k \<noteq> ''lastUpdated'' \<longrightarrow>
        stored (snd (bind_io (load_progress path) (save_progress path) w)) path (k # ks) =
        stored w path (k # ks)) \<and>
     filter (\<lambda>kv. fst kv \<noteq> ''lastUpdated'')
        (AList.update ''lastUpdated'' (JStr (isoformat (clock w (ticks w)) @ ''Z'')) d) =
       filter (\<lambda>kv. fst kv \<noteq> ''lastUpdated'') d \<and>
     (\<forall>q. q \<noteq> path \<longrightarrow>
        fs (snd (bind_io (load_progress path) (save_progress path) w)) q = fs w q)"
proof -
  have p: "path \<noteq> []"
    using assms by (auto simp: node_at_def)
  have b: "bind_io (load_progress path) (save_progress path) w =
     (Inr (),
      w\<lparr>fs := (fs w)(path \<mapsto> JsonFile (JObj
              (AList.update ''lastUpdated'' (JStr (isoformat (clock w (ticks w)) @ ''Z'')) d))),
        ticks := Suc (ticks w)\<rparr>)"
    by (simp add: bind_io_def load_progress_existing [OF assms] save_progress_dict [OF assms])
  show ?thesis
    unfolding b using p assms
    by (simp add: node_at_def stored_def filter_update_other AList.update_conv')
qed

theorem save_load_roundtrip_witness:
  "node_at (fs world0) progress_file =
     Some (JsonFile (JObj (default_record ''test-project'' (clock0 0) (clock0 0)))) \<and>
   fst (bind_io (load_progress progress_file) (save_progress progress_file) world0) = Inr () \<and>
   stored (snd (bind_io (load_progress progress_file) (save_progress progress_file) world0))
       progress_file [''project''] = Some (JStr ''test-project'') \<and>
   stored (snd (bind_io (load_progress progress_file) (save_progress progress_file) world0))
       progress_file [''currentWork'', ''type''] = Some (JStr ''general'')"
proof -
  have h: "node_at (fs world0) progress_file =
     Some (JsonFile (JObj (default_record ''test-project'' (clock0 0) (clock0 0))))"
    by (simp add: world0_def node_at_def progress_file_def)
  have s: "stored world0 progress_file [''project''] = Some (JStr ''test-project'')"
    "stored world0 progress_file [''currentWork'', ''type''] = Some (JStr ''general'')"
    by (simp_all add: stored_def h default_record_def default_current_work_def)
  show ?thesis
    using h s save_load_roundtrip [OF h]
    by simp
qed

text \<open>
  Claim C5. When nothing exists at a path and its containing directory exists,
  \<^verbatim>\<open>_load_progress\<close> returns the default record (version 2, the project named after the
  containing directory, \<^verbatim>\<open>currentWork\<close> of type \<^verbatim>\<open>general\<close>) and has written it to the path,
  changing no other path. A second load returns the same record and leaves the world as the
  first load left it: the file is not written again.
\<close>

theorem load_creates_once:
  assumes "node_at (fs w) path = None" and "node_at (fs w) (parent path) = Some Directory"
  shows
    "fst (load_progress path w) =
       Inr (JObj (default_record (name (parent path))
                    (clock w (ticks w)) (clock w (Suc (ticks w))))) \<and>
     lookup_in (JObj (default_record (name (parent path))
                    (clock w (ticks w)) (clock w (Suc (ticks w))))) [''version''] =
       Some (JInt 2) \<and>
     lookup_in (JObj (default_record (name (parent path))
                    (clock w (ticks w)) (clock w (Suc (ticks w))))) [''project''] =
       Some (JStr (name (parent path))) \<and>
     lookup_in (JObj (default_record (name (parent path))
                    (clock w (ticks w)) (clock w (Suc (ticks w))))) [''currentWork'', ''type''] =
       Some (JStr ''general'') \<and>
     fs (snd (load_progress path w)) =
       (fs w)(path \<mapsto> JsonFile (JObj (default_record (name (parent path))
                    (clock w (ticks w)) (clock w (Suc (ticks w)))))) \<and>
     fst (load_progress path (snd (load_progress path w))) = fst (load_progress path w) \<and>
     snd (load_progress path (snd (load_progress path w))) = snd (load_progress path w)"
proof -
  have p: "path \<noteq> []"
    using assms(1) by (auto simp: node_at_def)
  note m = load_progress_missing [OF assms]
  have "node_at (fs (snd (load_progress path w))) path =
      Some (JsonFile (JObj (default_record (name (parent path))
                    (clock w (ticks w)) (clock w (Suc (ticks w))))))"
    unfolding m using p by (simp add: node_at_def)
  from load_progress_existing [OF this] show ?thesis
    unfolding m by (simp add: default_record_def default_current_work_def)
qed

theorem load_creates_once_witness:
  "node_at (fs world_empty) progress_file = None \<and>
   node_at (fs world_empty) (parent progress_file) = Some Directory \<and>
   fst (load_progress progress_file world_empty) =
     Inr (JObj (default_record ''tmp'' (clock0 0) (clock0 0))) \<and>
   fs (snd (load_progress progress_file world_empty)) =
     (fs world_empty)(progress_file \<mapsto>
        JsonFile (JObj (default_record ''tmp'' (clock0 0) (clock0 0)))) \<and>
   fst (load_progress progress_file (snd (load_progress progress_file world_empty))) =
     Inr (JObj (default_record ''tmp'' (clock0 0) (clock0 0))) \<and>
   snd (load_progress progress_file (snd (load_progress progress_file world_empty))) =
     snd (load_progress progress_file world_empty)"
proof -
  have h1: "node_at (fs world_empty) progress_file = None"
    by (simp add: world_empty_def node_at_def progress_file_def)
  have h2: "node_at (fs world_empty) (parent progress_file) = Some Directory"
    by (simp add: world_empty_def node_at_def progress_file_def parent_def)
  have n: "name (parent progress_file) = ''tmp''"
    by (simp add: name_def parent_def progress_file_def)
  have c: "clock world_empty = clock0"
    by (simp add: world_empty_def)
  show ?thesis
    using h1 h2 load_creates_once [OF h1 h2]
    by (simp add: n c clock0_def)
qed

text \<open>
  Where the containing directory is missing too, the write fails and nothing is created.
\<close>

lemma load_progress_no_directory:
  assumes "node_at (fs w) path = None" and "node_at (fs w) (parent path) = None"
  shows "fst (load_progress path w) = Inl FileNotFoundError \<and>
         fs (snd (load_progress path w)) = fs w"
  using assms
  by (simp add: load_progress_def bind_io_def path_exists_def create_empty_progress_eq
      write_json_def)

text \<open>
  Claim C10. \<^verbatim>\<open>get_current_work\<close> on a path where nothing exists (in an existing directory)
  writes the default record to the path and returns the default \<^verbatim>\<open>currentWork\<close>; on a file
  holding a JSON object it returns the object's \<^verbatim>\<open>currentWork\<close> (the empty dict when the key
  is absent) and leaves the world, and so the file, as it was.
\<close>

theorem get_current_work_effects:
  "(node_at (fs w) path = None \<and> node_at (fs w) (parent path) = Some Directory \<longrightarrow>
      get_current_work path w =
        (Inr (JObj [(''type'', JStr ''general''), (''plan'', JNull), (''planTask'', JNull),
                    (''debugIssue'', JNull), (''debugPhase'', JNull)]),
         w\<lparr>fs := (fs w)(path \<mapsto> JsonFile (JObj (default_record (name (parent path))
                    (clock w (ticks w)) (clock w (Suc (ticks w)))))),
           ticks := Suc (Suc (ticks w))\<rparr>)) \<and>
   (node_at (fs w) path = Some (JsonFile (JObj d)) \<longrightarrow>
      get_current_work path w =
        (Inr (case map_of d ''currentWork'' of None \<Rightarrow> JObj [] | Some c \<Rightarrow> c), w))"
proof (intro conjI impI)
  assume "node_at (fs w) path = None \<and> node_at (fs w) (parent path) = Some Directory"
  then have "node_at (fs w) path = None" and "node_at (fs w) (parent path) = Some Directory"
    by simp_all
  from load_progress_missing [OF this]
  show "get_current_work path w =
        (Inr (JObj [(''type'', JStr ''general''), (''plan'', JNull), (''planTask'', JNull),
                    (''debugIssue'', JNull), (''debugPhase'', JNull)]),
         w\<lparr>fs := (fs w)(path \<mapsto> JsonFile (JObj (default_record (name (parent path))
                    (clock w (ticks w)) (clock w (Suc (ticks w)))))),
           ticks := Suc (Suc (ticks w))\<rparr>)"
    by (simp add: get_current_work_def bind_io_def lift_io_def default_record_def
        default_current_work_def)
next
  assume "node_at (fs w) path = Some (JsonFile (JObj d))"
  from load_progress_existing [OF this]
  show "get_current_work path w =
        (Inr (case map_of d ''currentWork'' of None \<Rightarrow> JObj [] | Some c \<Rightarrow> c), w)"
    by (simp add: get_current_work_def bind_io_def lift_io_def)
qed

theorem get_current_work_effects_witness:
  "node_at (fs world_empty) progress_file = None \<and>
   node_at (fs world_empty) (parent progress_file) = Some Directory \<and>
   fst (get_current_work progress_file world_empty) = Inr default_current_work \<and>
   fs (snd (get_current_work progress_file world_empty)) progress_file =
     Some (JsonFile (JObj (default_record ''tmp'' (clock0 0) (clock0 0)))) \<and>
   node_at (fs world0) progress_file =
     Some (JsonFile (JObj (default_record ''test-project'' (clock0 0) (clock0 0)))) \<and>
   get_current_work progress_file world0 = (Inr default_current_work, world0)"
proof -
  have h1: "node_at (fs world_empty) progress_file = None"
    by (simp add: world_empty_def node_at_def progress_file_def)
  have h2: "node_at (fs world_empty) (parent progress_file) = Some Directory"
    by (simp add: world_empty_def node_at_def progress_file_def parent_def)
  have h3: "node_at (fs world0) progress_file =
     Some (JsonFile (JObj (default_record ''test-project'' (clock0 0) (clock0 0))))"
    by (simp add: world0_def node_at_def progress_file_def)
  have n: "name (parent progress_file) = ''tmp''"
    by (simp add: name_def parent_def progress_file_def)
  have c: "clock world_empty = clock0"
    by (simp add: world_empty_def)
  have a: "fst (get_current_work progress_file world_empty) = Inr default_current_work \<and>
     fs (snd (get_current_work progress_file world_empty)) progress_file =
       Some (JsonFile (JObj (default_record ''tmp'' (clock0 0) (clock0 0))))"
    using h1 h2 get_current_work_effects [of world_empty progress_file "[]"]
    by (simp add: n c clock0_def default_current_work_def)
  have b: "get_current_work progress_file world0 = (Inr default_current_work, world0)"
    using h3 get_current_work_effects [of world0 progress_file
        "default_record ''test-project'' (clock0 0) (clock0 0)"]
    by (simp add: default_record_def)
  show ?thesis
    using h1 h2 h3 a b by blast
qed

section \<open>Properties of the event buffer and of the current work\<close>

text \<open>
  Claim C8, as amended. For a payload that binds, \<^verbatim>\<open>add_event\<close> returns without raising:
  it reads the clock once and puts one event, with the given type and payload, at the end of
  the buffer of the session (the empty buffer when the session has none). For a payload with
  a keyword named \<^verbatim>\<open>path\<close>, \<^verbatim>\<open>session_id\<close> or \<^verbatim>\<open>event_type\<close> it raises a
  \<^verbatim>\<open>TypeError\<close> and leaves the world as it was. In both cases the file system comes out as
  it went in, the call does the same on any other file system, and its \<^verbatim>\<open>path\<close> argument
  has no influence.
\<close>

theorem add_event_buffer_only:
  "(payload_binds kwargs \<longrightarrow>
      add_event path sid event_type kwargs w =
        (Inr (),
         w\<lparr>session_events := (session_events w)(sid \<mapsto>
               (case session_events w sid of None \<Rightarrow> [] | Some es \<Rightarrow> es) @
               [\<lparr>ev_type = EventType_value event_type,
                 timestamp = isoformat (clock w (ticks w)) @ ''Z'',
                 ev_data = kwargs\<rparr>]),
           ticks := Suc (ticks w)\<rparr>)) \<and>
   (\<not> payload_binds kwargs \<longrightarrow>
      add_event path sid event_type kwargs w = (Inl TypeError, w)) \<and>
   fs (snd (add_event path sid event_type kwargs w)) = fs w \<and>
   add_event path sid event_type kwargs (w\<lparr>fs := g\<rparr>) =
     (fst (add_event path sid event_type kwargs w),
      (snd (add_event path sid event_type kwargs w))\<lparr>fs := g\<rparr>) \<and>
   add_event path' sid event_type kwargs w = add_event path sid event_type kwargs w"
proof (cases "payload_binds kwargs")
  case True
  then show ?thesis
    by (simp add: add_event_eval)
next
  case False
  then show ?thesis
    by (simp add: add_event_raises)
qed

theorem add_event_buffer_only_witness:
  "payload_binds [(''plan'', JStr ''test.md'')] \<and>
   fst (add_event progress_file ''test-123'' PLAN_STARTED [(''plan'', JStr ''test.md'')] world0)
     = Inr () \<and>
   session_events
     (snd (add_event progress_file ''test-123'' PLAN_STARTED [(''plan'', JStr ''test.md'')]
        world0)) ''test-123'' =
     Some [\<lparr>ev_type = ''plan_started'', timestamp = ''2025-12-11T18:00:00Z'',
            ev_data = [(''plan'', JStr ''test.md'')]\<rparr>] \<and>
   fs (snd (add_event progress_file ''test-123'' PLAN_STARTED [(''plan'', JStr ''test.md'')]
        world0)) = fs world0 \<and>
   \<not> payload_binds [(''session_id'', JStr ''other'')] \<and>
   add_event progress_file ''test-123'' PLAN_STARTED [(''session_id'', JStr ''other'')] world0
     = (Inl TypeError, world0)"
proof -
  have h1: "payload_binds [(''plan'', JStr ''test.md'')]"
    by (simp add: payload_binds_def)
  have h2: "\<not> payload_binds [(''session_id'', JStr ''other'')]"
    by (simp add: payload_binds_def)
  have c: "clock world0 = clock0" "ticks world0 = 0" "session_events world0 ''test-123'' = None"
    by (simp_all add: world0_def)
  have a: "fst (add_event progress_file ''test-123'' PLAN_STARTED [(''plan'', JStr ''test.md'')]
        world0) = Inr () \<and>
     session_events
       (snd (add_event progress_file ''test-123'' PLAN_STARTED [(''plan'', JStr ''test.md'')]
          world0)) ''test-123'' =
       Some [\<lparr>ev_type = ''plan_started'', timestamp = ''2025-12-11T18:00:00Z'',
              ev_data = [(''plan'', JStr ''test.md'')]\<rparr>] \<and>
     fs (snd (add_event progress_file ''test-123'' PLAN_STARTED [(''plan'', JStr ''test.md'')]
          world0)) = fs world0"
    using h1 add_event_buffer_only [of "[(''plan'', JStr ''test.md'')]" progress_file
        "''test-123''" PLAN_STARTED world0 "fs world0" progress_file]
    by (simp add: c clock0_def)
  have b: "add_event progress_file ''test-123'' PLAN_STARTED [(''session_id'', JStr ''other'')]
        world0 = (Inl TypeError, world0)"
    using h2 add_event_buffer_only [of "[(''session_id'', JStr ''other'')]" progress_file
        "''test-123''" PLAN_STARTED world0 "fs world0" progress_file]
    by simp
  from h1 h2 a b show ?thesis
    by simp
qed

text \<open>
  The claim as stated, for every payload, fails: a payload with the keyword \<^verbatim>\<open>path\<close>
  makes the call raise, and no event is put in the buffer.
\<close>

theorem add_event_counterexample:
  "fst (add_event progress_file ''test-123'' CHECKPOINT [(''path'', JStr ''notes.md'')] world0) =
     Inl TypeError \<and>
   session_events
     (snd (add_event progress_file ''test-123'' CHECKPOINT [(''path'', JStr ''notes.md'')]
        world0)) ''test-123'' = None"
proof -
  have "\<not> payload_binds [(''path'', JStr ''notes.md'')]"
    by (simp add: payload_binds_def)
  then show ?thesis
    by (simp add: add_event_raises world0_def)
qed

text \<open>
  Claim C9. When a session has no buffer (neither \<^verbatim>\<open>start_session\<close> nor \<^verbatim>\<open>add_event\<close> was
  called for it) and the load gives a JSON object, \<^verbatim>\<open>end_session\<close> returns without raising,
  the persisted \<^verbatim>\<open>lastSession.events\<close> is the one \<^verbatim>\<open>session_end\<close> event, and the session
  buffers are as before.
\<close>

theorem end_session_without_start:
  assumes "session_events w sid = None" and "load_progress path w = (Inr (JObj d), w1)"
  shows
    "fst (end_session path sid duration_minutes summary commits next_steps w) = Inr () \<and>
     stored (snd (end_session path sid duration_minutes summary commits next_steps w)) path
        [''lastSession'', ''events''] =
       Some (JList
         [JObj [(''type'', JStr ''session_end''),
                (''timestamp'', JStr (isoformat (clock w1 (ticks w1)) @ ''Z'')),
                (''duration'', JInt duration_minutes)]]) \<and>
     session_events (snd (end_session path sid duration_minutes summary commits next_steps w))
       = session_events w"
proof -
  from load_progress_ok [OF assms(2)] have se: "session_events w1 = session_events w"
    by simp
  note e = end_session_stored [OF assms(2), of sid duration_minutes summary commits next_steps]
  from e have "stored (snd (end_session path sid duration_minutes summary commits next_steps w))
      path [''lastSession'', ''events''] =
       lookup_in (last_session_record w1 duration_minutes summary
               ((case session_events w1 sid of None \<Rightarrow> [] | Some es \<Rightarrow> es)
                  @ [session_end_event w1 duration_minutes])
               commits (case next_steps of None \<Rightarrow> [] | Some xs \<Rightarrow> xs)) [''events'']"
    by (auto intro!: stored_step)
  moreover have "(session_events w)(sid := None) = session_events w"
    using assms(1) by (simp add: fun_upd_idem)
  ultimately show ?thesis
    using e se assms(1)
    by (simp add: last_session_record_def session_end_event_def to_dict_def)
qed

theorem end_session_without_start_witness:
  "session_events world0 ''never-started'' = None \<and>
   load_progress progress_file world0 =
     (Inr (JObj (default_record ''test-project'' (clock0 0) (clock0 0))), world0) \<and>
   fst (end_session progress_file ''never-started'' 5 ''instant'' [] None world0) = Inr () \<and>
   stored (snd (end_session progress_file ''never-started'' 5 ''instant'' [] None world0))
       progress_file [''lastSession'', ''events''] =
     Some (JList
       [JObj [(''type'', JStr ''session_end''),
              (''timestamp'', JStr ''2025-12-11T18:00:00Z''),
              (''duration'', JInt 5)]])"
proof -
  have h1: "session_events world0 ''never-started'' = None"
    by (simp add: world0_def)
  have h2: "load_progress progress_file world0 =
     (Inr (JObj (default_record ''test-project'' (clock0 0) (clock0 0))), world0)"
    by (rule load_progress_existing) (simp add: world0_def node_at_def progress_file_def)
  have c: "clock world0 = clock0"
    by (simp add: world0_def)
  show ?thesis
    using h1 h2 end_session_without_start [OF h1 h2, of 5 "''instant''" "[]" None]
    by (simp add: c clock0_def)
qed

lemma other_types_nulled_iff:
  "other_types_nulled t (current_work_record t p pt di dp fi) \<longleftrightarrow>
     set (passed_fields p pt di dp fi) \<subseteq> set (fields_of t)"
  by (cases t; cases p; cases pt; cases di; cases dp; cases fi)
    (simp_all add: other_types_nulled_def current_work_record_def passed_fields_def
      opt_str_def opt_int_def)

text \<open>
  Claim C7, as amended. When the load gives a JSON object, \<^verbatim>\<open>set_current_work\<close> returns
  without raising and replaces \<^verbatim>\<open>currentWork\<close> by the record of six keys that holds the work
  type and the five arguments as they were passed, null for an argument that was not passed;
  \<^verbatim>\<open>get_current_work\<close> then returns that record. The fields of the other work types are
  null exactly when the caller passes no field of another type. Every key of the record other
  than \<^verbatim>\<open>currentWork\<close> and \<^verbatim>\<open>lastUpdated\<close> reads as in the loaded record.
\<close>

theorem set_current_work_stores_arguments:
  assumes "load_progress path w = (Inr (JObj d), w1)"
  shows
    "fst (set_current_work path t p pt di dp fi w) = Inr () \<and>
     stored (snd (set_current_work path t p pt di dp fi w)) path [''currentWork''] =
       Some (current_work_record t p pt di dp fi) \<and>
     fst (bind_io (set_current_work path t p pt di dp fi) (\<lambda>_. get_current_work path) w) =
       Inr (current_work_record t p pt di dp fi) \<and>
     (other_types_nulled t (current_work_record t p pt di dp fi) \<longleftrightarrow>
        set (passed_fields p pt di dp fi) \<subseteq> set (fields_of t)) \<and>
     (\<forall>k ks. k \<noteq> ''currentWork'' \<and> k \<noteq> ''lastUpdated'' \<longrightarrow>
        stored (snd (set_current_work path t p pt di dp fi w)) path (k # ks) =
        lookup_in (JObj d) (k # ks))"
proof -
  have pth: "path \<noteq> []"
    by (rule load_progress_path [OF assms])
  note e = set_current_work_eval [OF assms, of t p pt di dp fi]
  obtain d2 where f2: "node_at (fs (snd (set_current_work path t p pt di dp fi w))) path =
      Some (JsonFile (JObj d2))"
    and cw2: "map_of d2 ''currentWork'' = Some (current_work_record t p pt di dp fi)"
    unfolding e using pth
    by (simp add: node_at_def AList.update_conv' current_work_record_def)
  have g: "get_current_work path (snd (set_current_work path t p pt di dp fi w)) =
      (Inr (current_work_record t p pt di dp fi), snd (set_current_work path t p pt di dp fi w))"
    using load_progress_existing [OF f2] cw2
    by (simp add: get_current_work_def bind_io_def lift_io_def)
  have ok: "fst (set_current_work path t p pt di dp fi w) = Inr ()"
    by (simp add: e)
  have b: "fst (bind_io (set_current_work path t p pt di dp fi) (\<lambda>_. get_current_work path) w) =
       Inr (current_work_record t p pt di dp fi)"
    using ok g by (cases "set_current_work path t p pt di dp fi w") (simp add: bind_io_def)
  have st: "stored (snd (set_current_work path t p pt di dp fi w)) path [''currentWork''] =
       Some (current_work_record t p pt di dp fi)"
    using f2 cw2 by (simp add: stored_def)
  have rest: "\<forall>k ks. k \<noteq> ''currentWork'' \<and> k \<noteq> ''lastUpdated'' \<longrightarrow>
        stored (snd (set_current_work path t p pt di dp fi w)) path (k # ks) =
        lookup_in (JObj d) (k # ks)"
    unfolding e using pth
    by (simp add: stored_def node_at_def AList.update_conv')
  from ok st b other_types_nulled_iff rest show ?thesis
    by blast
qed

theorem set_current_work_stores_arguments_witness:
  "load_progress progress_file world0 =
     (Inr (JObj (default_record ''test-project'' (clock0 0) (clock0 0))), world0) \<and>
   fst (bind_io (set_current_work progress_file PLAN (Some ''p.md'') (Some 2) None None None)
          (\<lambda>_. get_current_work progress_file) world0) =
     Inr (JObj [(''type'', JStr ''plan''),
                (''plan'', JStr ''p.md''),
                (''planTask'', JInt 2),
                (''debugIssue'', JNull),
                (''debugPhase'', JNull),
                (''featureId'', JNull)]) \<and>
   other_types_nulled PLAN (current_work_record PLAN (Some ''p.md'') (Some 2) None None None)"
proof -
  have h: "load_progress progress_file world0 =
     (Inr (JObj (default_record ''test-project'' (clock0 0) (clock0 0))), world0)"
    by (rule load_progress_existing) (simp add: world0_def node_at_def progress_file_def)
  show ?thesis
    using h set_current_work_stores_arguments [OF h, of PLAN "Some ''p.md''" "Some 2"
        None None None]
    by (simp add: current_work_record_def opt_str_def opt_int_def passed_fields_def)
qed

text \<open>
  The claim as stated fails: a call that names the type \<^verbatim>\<open>plan\<close> and passes a debug issue
  stores the issue, so a field of another work type is not null.
\<close>

theorem set_current_work_counterexample:
  "fst (bind_io
          (set_current_work progress_file PLAN (Some ''p.md'') (Some 2)
             (Some ''Test failures'') None None)
          (\<lambda>_. get_current_work progress_file) world0) =
     Inr (JObj [(''type'', JStr ''plan''),
                (''plan'', JStr ''p.md''),
                (''planTask'', JInt 2),
                (''debugIssue'', JStr ''Test failures''),
                (''debugPhase'', JNull),
                (''featureId'', JNull)]) \<and>
   \<not> other_types_nulled PLAN
       (JObj [(''type'', JStr ''plan''),
              (''plan'', JStr ''p.md''),
              (''planTask'', JInt 2),
              (''debugIssue'', JStr ''Test failures''),
              (''debugPhase'', JNull),
              (''featureId'', JNull)])"
proof -
  have h: "load_progress progress_file world0 =
     (Inr (JObj (default_record ''test-project'' (clock0 0) (clock0 0))), world0)"
    by (rule load_progress_existing) (simp add: world0_def node_at_def progress_file_def)
  have p: "progress_file \<noteq> []"
    by (simp add: progress_file_def)
  note e = set_current_work_eval [OF h, of PLAN "Some ''p.md''" "Some 2"
      "Some ''Test failures''" None None]
  obtain d2 where f2: "node_at (fs (snd (set_current_work progress_file PLAN (Some ''p.md'')
        (Some 2) (Some ''Test failures'') None None world0))) progress_file =
      Some (JsonFile (JObj d2))"
    and cw2: "map_of d2 ''currentWork'' =
      Some (JObj [(''type'', JStr ''plan''),
                (''plan'', JStr ''p.md''),
                (''planTask'', JInt 2),
                (''debugIssue'', JStr ''Test failures''),
                (''debugPhase'', JNull),
                (''featureId'', JNull)])"
    unfolding e using p
    by (simp add: node_at_def AList.update_conv' opt_str_def opt_int_def)
  have "fst (bind_io
          (set_current_work progress_file PLAN (Some ''p.md'') (Some 2)
             (Some ''Test failures'') None None)
          (\<lambda>_. get_current_work progress_file) world0) =
     fst (get_current_work progress_file (snd (set_current_work progress_file PLAN
        (Some ''p.md'') (Some 2) (Some ''Test failures'') None None world0)))"
    by (simp add: bind_io_def e)
  also have "\<dots> = Inr (JObj [(''type'', JStr ''plan''),
                (''plan'', JStr ''p.md''),
                (''planTask'', JInt 2),
                (''debugIssue'', JStr ''Test failures''),
                (''debugPhase'', JNull),
                (''featureId'', JNull)])"
    using load_progress_existing [OF f2] cw2
    by (simp add: get_current_work_def bind_io_def lift_io_def)
  finally show ?thesis
    by (simp add: other_types_nulled_def)
qed

section \<open>Properties of the path resolution\<close>

lemma walk_dirs_Nil: "walk_dirs [] = []"
  by (simp add: walk_dirs_def)

lemma walk_dirs_snoc: "walk_dirs (p @ [s]) = (p @ [s]) # walk_dirs p"
proof -
  have "prefixes p \<noteq> []"
    by (cases p rule: rev_cases) simp_all
  then have "tl (prefixes p @ [p @ [s]]) = tl (prefixes p) @ [p @ [s]]"
    by simp
  then show ?thesis
    by (simp add: walk_dirs_def)
qed

lemma walk_dirs_step: "p \<noteq> [] \<Longrightarrow> walk_dirs p = p # walk_dirs (butlast p)"
  by (cases p rule: rev_cases) (simp_all add: walk_dirs_snoc)

lemma walk_up_Nil: "walk_up f [] = None"
  by (subst walk_up.simps) (simp add: parent_def)

lemma walk_up_snoc:
  "walk_up f (p @ [s]) =
     (if has_file f (p @ [s]) then Some (joinpath (p @ [s]) PROGRESS_FILENAME)
      else if has_git f (p @ [s]) then None
      else walk_up f p)"
  by (subst walk_up.simps) (simp add: parent_def has_file_def has_git_def)

lemma walk_up_find:
  "walk_up f cwd =
     (case find (\<lambda>d. has_file f d \<or> has_git f d) (walk_dirs cwd) of
        None \<Rightarrow> None
      | Some d \<Rightarrow> if has_file f d then Some (joinpath d PROGRESS_FILENAME) else None)"
proof (induction cwd rule: rev_induct)
  case Nil
  show ?case
    by (simp add: walk_up_Nil walk_dirs_Nil)
next
  case (snoc s p)
  then show ?case
    by (simp add: walk_up_snoc walk_dirs_snoc)
qed

lemma find_progress_file_resolve:
  "find_progress_file cwd create_if_missing w =
     (case resolve (fs w) cwd of
        Some p \<Rightarrow> (Inr (Some p), w)
      | None \<Rightarrow>
          if create_if_missing then
            bind_io (create_empty_progress (name cwd)) (\<lambda>data.
            bind_io (write_json (joinpath cwd PROGRESS_FILENAME) data) (\<lambda>_.
            return_io (Some (joinpath cwd PROGRESS_FILENAME)))) w
          else (Inr None, w))"
proof (cases "has_file (fs w) cwd")
  case True
  then have "node_at (fs w) (joinpath cwd PROGRESS_FILENAME) \<noteq> None"
    by (simp add: has_file_def)
  with True show ?thesis
    by (simp add: find_progress_file_def bind_io_def path_exists_def return_io_def resolve_def)
next
  case False
  then have "node_at (fs w) (joinpath cwd PROGRESS_FILENAME) = None"
    by (simp add: has_file_def)
  with False show ?thesis
    by (simp add: find_progress_file_def bind_io_def path_exists_def return_io_def resolve_def
        walk_up_find split: option.splits)
qed

lemma resolve_None_no_file:
  "resolve f cwd = None \<Longrightarrow> node_at f (joinpath cwd PROGRESS_FILENAME) = None"
  by (auto simp: resolve_def has_file_def split: if_splits)

text \<open>
  Claim C6. \<^verbatim>\<open>find_progress_file\<close> returns the file in \<open>cwd\<close> when there is one. Otherwise
  it visits \<open>cwd\<close> and its ancestors upwards, short of the file system root, and stops at
  the first directory that holds the progress file or a \<^verbatim>\<open>.git\<close>: it returns the file when
  that directory holds it, and has found nothing when the directory only holds \<^verbatim>\<open>.git\<close> or
  when no visited directory holds either. In a tree with \<^verbatim>\<open>root/.git\<close> and no progress file
  in \<^verbatim>\<open>root\<close> or \<^verbatim>\<open>root/sub\<close>, resolving from \<^verbatim>\<open>root/sub\<close> without creation returns
  absent, whatever else the tree holds. When nothing is found, the call without creation
  returns absent and changes nothing, and the call with creation (in an existing directory
  \<open>cwd\<close>) writes the default record to the file in \<open>cwd\<close>, changes no other path and returns
  that path.
\<close>

theorem find_progress_file_resolution:
  "(\<forall>p. resolve (fs w) cwd = Some p \<longrightarrow>
      find_progress_file cwd create_if_missing w = (Inr (Some p), w)) \<and>
   (resolve (fs w) cwd = None \<longrightarrow>
      find_progress_file cwd False w = (Inr None, w)) \<and>
   (resolve (fs w) cwd = None \<and> node_at (fs w) cwd = Some Directory \<longrightarrow>
      find_progress_file cwd True w =
        (Inr (Some (joinpath cwd PROGRESS_FILENAME)),
         w\<lparr>fs := (fs w)(joinpath cwd PROGRESS_FILENAME \<mapsto>
                  JsonFile (JObj (default_record (name cwd)
                     (clock w (ticks w)) (clock w (Suc (ticks w)))))),
           ticks := Suc (Suc (ticks w))\<rparr>)) \<and>
   (has_git (fs w) root \<and> \<not> has_file (fs w) root \<and> \<not> has_file (fs w) (root @ [sub]) \<longrightarrow>
      find_progress_file (root @ [sub]) False w = (Inr None, w))"
proof (intro conjI allI impI)
  fix p
  assume "resolve (fs w) cwd = Some p"
  then show "find_progress_file cwd create_if_missing w = (Inr (Some p), w)"
    by (simp add: find_progress_file_resolve)
next
  assume "resolve (fs w) cwd = None"
  then show "find_progress_file cwd False w = (Inr None, w)"
    by (simp add: find_progress_file_resolve)
next
  assume a: "resolve (fs w) cwd = None \<and> node_at (fs w) cwd = Some Directory"
  then have n: "node_at (fs w) (joinpath cwd PROGRESS_FILENAME) = None"
    by (simp add: resolve_None_no_file)
  have "parent (joinpath cwd PROGRESS_FILENAME) = cwd"
    by (simp add: parent_def joinpath_def)
  with a n show "find_progress_file cwd True w =
        (Inr (Some (joinpath cwd PROGRESS_FILENAME)),
         w\<lparr>fs := (fs w)(joinpath cwd PROGRESS_FILENAME \<mapsto>
                  JsonFile (JObj (default_record (name cwd)
                     (clock w (ticks w)) (clock w (Suc (ticks w)))))),
           ticks := Suc (Suc (ticks w))\<rparr>)"
    by (simp add: find_progress_file_resolve bind_io_def create_empty_progress_eq
        write_json_def return_io_def)
next
  assume a: "has_git (fs w) root \<and> \<not> has_file (fs w) root \<and> \<not> has_file (fs w) (root @ [sub])"
  have "resolve (fs w) (root @ [sub]) = None"
  proof (cases "root = []")
    case True
    with a show ?thesis
      unfolding resolve_def walk_dirs_snoc by (simp add: walk_dirs_Nil)
  next
    case False
    with a show ?thesis
      unfolding resolve_def walk_dirs_snoc by (simp add: walk_dirs_step [OF False])
  qed
  then show "find_progress_file (root @ [sub]) False w = (Inr None, w)"
    by (simp add: find_progress_file_resolve)
qed

theorem find_progress_file_resolution_witness:
  "has_git (fs world_tree) [''root''] \<and> \<not> has_file (fs world_tree) [''root''] \<and>
   \<not> has_file (fs world_tree) ([''root''] @ [''sub'']) \<and>
   find_progress_file ([''root''] @ [''sub'']) False world_tree = (Inr None, world_tree) \<and>
   resolve (fs world_tree) [''root''] = None \<and>
   node_at (fs world_tree) [''root''] = Some Directory \<and>
   find_progress_file [''root''] True world_tree =
     (Inr (Some [''root'', ''project-progress.json'']),
      world_tree\<lparr>fs := (fs world_tree)([''root'', ''project-progress.json''] \<mapsto>
                  JsonFile (JObj (default_record ''root'' (clock0 0) (clock0 0)))),
        ticks := 2\<rparr>) \<and>
   resolve (fs world0) [''tmp'', ''src''] = Some progress_file \<and>
   find_progress_file [''tmp'', ''src''] False world0 = (Inr (Some progress_file), world0)"
proof -
  have g: "has_git (fs world_tree) [''root'']"
    by (simp add: has_git_def world_tree_def node_at_def joinpath_def)
  have nf: "\<not> has_file (fs world_tree) [''root'']"
    "\<not> has_file (fs world_tree) ([''root''] @ [''sub''])"
    by (simp_all add: has_file_def world_tree_def node_at_def joinpath_def PROGRESS_FILENAME_def)
  have wd: "walk_dirs [''root''] = [[''root'']]"
    "walk_dirs [''tmp'', ''src''] = [[''tmp'', ''src''], [''tmp'']]"
    by (simp_all add: walk_dirs_def)
  have r: "resolve (fs world_tree) [''root''] = None"
    using g nf by (simp add: resolve_def wd)
  have d: "node_at (fs world_tree) [''root''] = Some Directory"
    by (simp add: world_tree_def node_at_def)
  have r0: "resolve (fs world0) [''tmp'', ''src''] = Some progress_file"
    by (simp add: resolve_def wd has_file_def has_git_def world0_def node_at_def joinpath_def
        PROGRESS_FILENAME_def progress_file_def)
  have c: "clock world_tree = clock0" "ticks world_tree = 0"
    by (simp_all add: world_tree_def)
  have a: "find_progress_file ([''root''] @ [''sub'']) False world_tree = (Inr None, world_tree)"
    using g nf find_progress_file_resolution [of world_tree "[]" False "[''root'']" "''sub''"]
    by simp
  have b: "find_progress_file [''root''] True world_tree =
     (Inr (Some [''root'', ''project-progress.json'']),
      world_tree\<lparr>fs := (fs world_tree)([''root'', ''project-progress.json''] \<mapsto>
                  JsonFile (JObj (default_record ''root'' (clock0 0) (clock0 0)))),
        ticks := 2\<rparr>)"
    using r d find_progress_file_resolution [of world_tree "[''root'']" True "[]" "[]"]
    by (simp add: c clock0_def name_def joinpath_def PROGRESS_FILENAME_def numeral_2_eq_2)
  have e: "find_progress_file [''tmp'', ''src''] False world0 = (Inr (Some progress_file), world0)"
    using r0 find_progress_file_resolution [of world0 "[''tmp'', ''src'']" False "[]" "[]"]
    by simp
  from g nf a r d b r0 e show ?thesis
    by simp
qed

text \<open>
  The order of the two checks in a visited directory: a progress file in the directory that
  holds \<^verbatim>\<open>.git\<close> is found; a progress file above it is not.
\<close>

lemma resolve_at_git_root:
  assumes "\<not> has_file f (root @ [sub])" and "\<not> has_git f (root @ [sub])"
    and "root \<noteq> []" and "has_git f root"
  shows "resolve f (root @ [sub]) =
     (if has_file f root then Some (joinpath root PROGRESS_FILENAME) else None)"
  using assms(1,2,4) unfolding resolve_def walk_dirs_snoc
  by (simp add: walk_dirs_step [OF assms(3)])

end
